theory Spec2Isabelle
  imports Complex_Main
begin

section \<open>Python strings\<close>

text \<open>
  The receipt processor works on Python \<open>str\<close> values. They are modelled as
  \<open>string\<close> (a list of characters); the text is taken to be ASCII, which is what the
  keyword tables and patterns of the source are written in. The helper functions below
  are the \<open>str\<close> methods the source calls.
\<close>

definition is_digit :: "char \<Rightarrow> bool" where
  \<comment> \<open>the regular-expression class \<open>\d\<close> on ASCII text\<close>
  "is_digit c = (c \<in> set ''0123456789'')"

definition is_space :: "char \<Rightarrow> bool" where
  \<comment> \<open>\<open>str.isspace\<close> on ASCII: tab, LF, VT, FF, CR, FS, GS, RS, US and blank;
      it is also the class \<open>\s\<close> and what \<open>strip()\<close> and \<open>split()\<close> remove\<close>
  "is_space c = (c \<in> set [CHR 0x09, CHR 0x0A, CHR 0x0B, CHR 0x0C, CHR 0x0D,
                            CHR 0x1C, CHR 0x1D, CHR 0x1E, CHR 0x1F, CHR '' ''])"

definition is_alpha :: "char \<Rightarrow> bool" where
  \<comment> \<open>the class \<open>[A-Za-z]\<close>\<close>
  "is_alpha c = (c \<in> set ''ABCDEFGHIJKLMNOPQRSTUVWXYZabcdefghijklmnopqrstuvwxyz'')"

definition lower_char :: "char \<Rightarrow> char" where
  "lower_char c =
     (case map_of (zip ''ABCDEFGHIJKLMNOPQRSTUVWXYZ'' ''abcdefghijklmnopqrstuvwxyz'') c of
        Some d \<Rightarrow> d
      | None \<Rightarrow> c)"

definition lower :: "string \<Rightarrow> string" where
  \<comment> \<open>\<open>s.lower()\<close>\<close>
  "lower s = map lower_char s"

fun starts_with :: "string \<Rightarrow> string \<Rightarrow> bool" where
  \<comment> \<open>\<open>s.startswith(p)\<close>, written \<open>starts_with p s\<close>\<close>
  "starts_with [] s = True"
| "starts_with (p # ps) [] = False"
| "starts_with (p # ps) (c # cs) = (p = c \<and> starts_with ps cs)"

definition ends_with :: "string \<Rightarrow> string \<Rightarrow> bool" where
  \<comment> \<open>\<open>s.endswith(p)\<close>, written \<open>ends_with p s\<close>\<close>
  "ends_with p s = starts_with (rev p) (rev s)"

fun contains :: "string \<Rightarrow> string \<Rightarrow> bool" where
  \<comment> \<open>\<open>sub in s\<close>, written \<open>contains sub s\<close>\<close>
  "contains sub [] = (sub = [])"
| "contains sub (c # cs) = (starts_with sub (c # cs) \<or> contains sub cs)"

fun find_from :: "string \<Rightarrow> int \<Rightarrow> string \<Rightarrow> int" where
  "find_from sub i [] = (if sub = [] then i else - 1)"
| "find_from sub i (c # cs) =
     (if starts_with sub (c # cs) then i else find_from sub (i + 1) cs)"

definition find :: "string \<Rightarrow> string \<Rightarrow> int" where
  \<comment> \<open>\<open>s.find(sub)\<close>: the lowest index where \<open>sub\<close> starts, \<open>-1\<close> when there is none\<close>
  "find s sub = find_from sub 0 s"

definition slice_to :: "string \<Rightarrow> int \<Rightarrow> string" where
  \<comment> \<open>\<open>s[:k]\<close>; a negative \<open>k\<close> counts from the end\<close>
  "slice_to s k = (if 0 \<le> k then take (nat k) s else take (nat (int (length s) + k)) s)"

definition strip :: "string \<Rightarrow> string" where
  \<comment> \<open>\<open>s.strip()\<close>\<close>
  "strip s = rev (dropWhile is_space (rev (dropWhile is_space s)))"

definition replace_char :: "char \<Rightarrow> string \<Rightarrow> string \<Rightarrow> string" where
  \<comment> \<open>\<open>s.replace(c, r)\<close> for a one-character \<open>c\<close>\<close>
  "replace_char c r s = concat (map (\<lambda>d. if d = c then r else [d]) s)"

fun split_char_acc :: "char \<Rightarrow> string \<Rightarrow> string \<Rightarrow> string list" where
  "split_char_acc sep cur [] = [rev cur]"
| "split_char_acc sep cur (c # cs) =
     (if c = sep then rev cur # split_char_acc sep [] cs
      else split_char_acc sep (c # cur) cs)"

definition split_char :: "char \<Rightarrow> string \<Rightarrow> string list" where
  \<comment> \<open>\<open>s.split(sep)\<close> for a one-character separator: never an empty list\<close>
  "split_char sep s = split_char_acc sep [] s"

definition split_once :: "char \<Rightarrow> string \<Rightarrow> string list" where
  \<comment> \<open>\<open>s.split(sep, 1)\<close>: at most one split, at the first separator\<close>
  "split_once sep s =
     (if sep \<in> set s then [takeWhile (\<lambda>c. c \<noteq> sep) s, tl (dropWhile (\<lambda>c. c \<noteq> sep) s)]
      else [s])"

fun split_ws_acc :: "string \<Rightarrow> string \<Rightarrow> string list" where
  "split_ws_acc cur [] = (if cur = [] then [] else [rev cur])"
| "split_ws_acc cur (c # cs) =
     (if is_space c then (if cur = [] then [] else [rev cur]) @ split_ws_acc [] cs
      else split_ws_acc (c # cur) cs)"

definition split_ws :: "string \<Rightarrow> string list" where
  \<comment> \<open>\<open>s.split()\<close>: the maximal runs of non-blank characters\<close>
  "split_ws s = split_ws_acc [] s"

definition join :: "string \<Rightarrow> string list \<Rightarrow> string" where
  \<comment> \<open>\<open>sep.join(parts)\<close>\<close>
  "join sep parts = (case parts of [] \<Rightarrow> [] | p # ps \<Rightarrow> p @ concat (map (\<lambda>q. sep @ q) ps))"

definition newline :: char where
  "newline = CHR 0x0A"

section \<open>Python numbers\<close>

text \<open>
  Python integers are unbounded: \<open>int\<close>. A Python \<open>float\<close> is modelled by the exact
  rational number its decimal text denotes, so the binary rounding of a double is not
  part of the model; every amount named in the properties below is a double exactly.

  \<open>int(s)\<close> raises \<open>ValueError\<close> when \<open>s\<close> has more digits than the interpreter's
  limit for the conversion of a string to an integer, 4300 by default
  (\<open>sys.get_int_max_str_digits()\<close>). The digits are counted as written, leading zeros
  included; sign, blanks and underscores do not count. An exception is a value of the
  type \<open>error\<close>; a function that can raise returns \<open>error + 'a\<close>, with \<open>Inl\<close> for the
  exception.
\<close>

datatype error = ValueError

definition int_max_str_digits :: nat where
  "int_max_str_digits = 4300"

definition digit_val :: "char \<Rightarrow> nat" where
  "digit_val c = of_char c - 48"

definition digits_val :: "string \<Rightarrow> nat" where
  \<comment> \<open>the value of a run of decimal digits, most significant first\<close>
  "digits_val ds = foldl (\<lambda>a c. 10 * a + digit_val c) 0 ds"

definition py_float :: "string \<Rightarrow> rat option" where
  \<comment> \<open>\<open>float(s)\<close> on a string of digits and dots, the only characters that reach it:
      digits with at most one dot and at least one digit; \<open>None\<close> is \<open>ValueError\<close>\<close>
  "py_float s =
     (let ip = takeWhile is_digit s; rest = dropWhile is_digit s in
      case rest of
        [] \<Rightarrow> (if ip = [] then None else Some (of_nat (digits_val ip)))
      | c # fp \<Rightarrow>
          (if c = CHR ''.'' \<and> list_all is_digit fp \<and> (ip \<noteq> [] \<or> fp \<noteq> [])
           then Some (of_nat (digits_val ip) + of_nat (digits_val fp) / 10 ^ length fp)
           else None))"

definition int_body_ok :: "string \<Rightarrow> bool" where
  \<comment> \<open>digits, with single underscores allowed between two digits\<close>
  "int_body_ok b =
     (b \<noteq> [] \<and> list_all (\<lambda>c. is_digit c \<or> c = CHR ''_'') b \<and>
      is_digit (hd b) \<and> is_digit (last b) \<and> \<not> contains ''__'' b)"

definition py_int :: "string \<Rightarrow> int option" where
  \<comment> \<open>\<open>int(s)\<close> inside \<open>try ... except ValueError\<close>: blanks stripped, an optional
      sign, then the digits, no more of them than the limit; \<open>None\<close> is \<open>ValueError\<close>\<close>
  "py_int s =
     (let t = strip s;
          neg = (t \<noteq> [] \<and> hd t = CHR ''-'');
          b = (if t \<noteq> [] \<and> (hd t = CHR ''-'' \<or> hd t = CHR ''+'') then tl t else t)
      in if int_body_ok b \<and> length (filter is_digit b) \<le> int_max_str_digits
         then Some ((if neg then - 1 else 1) * int (digits_val (filter (\<lambda>c. c \<noteq> CHR ''_'') b)))
         else None)"

section \<open>Regular expressions\<close>

text \<open>
  The patterns of the source are written as terms of \<open>regex\<close> and run by a backtracking
  matcher with the semantics of Python's \<open>re\<close>: \<open>matches r st\<close> lists every way \<open>r\<close>
  can match from the state \<open>st\<close>, in the order the backtracking engine tries them
  (greedy repetition longest first, alternatives left to right), so its head is the
  match Python reports. A state is the position reached, the text still unread and the
  groups captured so far.
\<close>

datatype regex =
    Eps
  | Atom "char \<Rightarrow> bool"
  | Seq regex regex
  | Alt regex regex
  | Star regex
  | LazyStar regex
  | Group nat regex
  | Bol
  | Eol

type_synonym mstate = "nat \<times> string \<times> (nat \<times> string) list"

primrec star_iter :: "(mstate \<Rightarrow> mstate list) \<Rightarrow> nat \<Rightarrow> mstate \<Rightarrow> mstate list" where
  "star_iter f 0 st = [st]"
| "star_iter f (Suc n) st =
     concat (map (star_iter f n)
       (filter (\<lambda>st'. length (fst (snd st')) < length (fst (snd st))) (f st))) @ [st]"

primrec lazy_iter :: "(mstate \<Rightarrow> mstate list) \<Rightarrow> nat \<Rightarrow> mstate \<Rightarrow> mstate list" where
  "lazy_iter f 0 st = [st]"
| "lazy_iter f (Suc n) st =
     st # concat (map (lazy_iter f n)
       (filter (\<lambda>st'. length (fst (snd st')) < length (fst (snd st))) (f st)))"

primrec matches :: "regex \<Rightarrow> mstate \<Rightarrow> mstate list" where
  "matches Eps st = [st]"
| "matches (Atom p) st =
     (case fst (snd st) of
        [] \<Rightarrow> []
      | c # cs \<Rightarrow> if p c then [(Suc (fst st), cs, snd (snd st))] else [])"
| "matches (Seq r1 r2) st = concat (map (matches r2) (matches r1 st))"
| "matches (Alt r1 r2) st = matches r1 st @ matches r2 st"
| "matches (Star r) st = star_iter (matches r) (length (fst (snd st))) st"
| "matches (LazyStar r) st = lazy_iter (matches r) (length (fst (snd st))) st"
| "matches (Group n r) st =
     map (\<lambda>st'. (fst st', fst (snd st'),
                 (n, take (fst st' - fst st) (fst (snd st))) # snd (snd st')))
       (matches r st)"
| "matches Bol st = (if fst st = 0 then [st] else [])"
| "matches Eol st = (if fst (snd st) = [] \<or> fst (snd st) = [newline] then [st] else [])"

text \<open>
  A match object: where the match starts, the text of the whole match (\<open>group(0)\<close>)
  and the captured groups, the latest capture of a group first.
\<close>

record match_obj =
  m_start :: nat
  m_text :: string
  m_groups :: "(nat \<times> string) list"

definition group :: "match_obj \<Rightarrow> nat \<Rightarrow> string" where
  \<comment> \<open>\<open>m.group(n)\<close> for a group that took part in the match\<close>
  "group m n = (if n = 0 then m_text m else case map_of (m_groups m) n of Some g \<Rightarrow> g | None \<Rightarrow> [])"

definition match_at :: "regex \<Rightarrow> nat \<Rightarrow> string \<Rightarrow> match_obj option" where
  "match_at r i s =
     (case matches r (i, s, []) of
        [] \<Rightarrow> None
      | st # _ \<Rightarrow> Some \<lparr>m_start = i, m_text = take (fst st - i) s, m_groups = snd (snd st)\<rparr>)"

fun search_from :: "regex \<Rightarrow> nat \<Rightarrow> string \<Rightarrow> match_obj option" where
  "search_from r i [] = match_at r i []"
| "search_from r i (c # cs) =
     (case match_at r i (c # cs) of
        Some m \<Rightarrow> Some m
      | None \<Rightarrow> search_from r (Suc i) cs)"

definition re_search :: "regex \<Rightarrow> string \<Rightarrow> match_obj option" where
  \<comment> \<open>\<open>re.search(r, s)\<close>: the match at the leftmost position that has one\<close>
  "re_search r s = search_from r 0 s"

definition re_match :: "regex \<Rightarrow> string \<Rightarrow> match_obj option" where
  \<comment> \<open>\<open>re.match(r, s)\<close>: a match at position 0 only\<close>
  "re_match r s = match_at r 0 s"

fun sub_from :: "regex \<Rightarrow> nat \<Rightarrow> string \<Rightarrow> string" where
  "sub_from r i [] = []"
| "sub_from r i (c # cs) =
     (case match_at r i (c # cs) of
        None \<Rightarrow> c # sub_from r (Suc i) cs
      | Some m \<Rightarrow>
          (if m_text m = [] then c # sub_from r (Suc i) cs
           else sub_from r (i + length (m_text m)) (drop (length (m_text m)) (c # cs))))"

definition re_sub_empty :: "regex \<Rightarrow> string \<Rightarrow> string" where
  \<comment> \<open>\<open>re.sub(r, '', s)\<close>: every non-overlapping match, leftmost first, is deleted\<close>
  "re_sub_empty r s = sub_from r 0 s"

subsection \<open>Pattern building blocks\<close>

definition lit :: "char \<Rightarrow> regex" where
  "lit c = Atom (\<lambda>d. d = c)"

definition lit_ci :: "char \<Rightarrow> regex" where
  \<comment> \<open>a literal character under \<open>re.IGNORECASE\<close>\<close>
  "lit_ci c = Atom (\<lambda>d. lower_char d = lower_char c)"

definition str :: "string \<Rightarrow> regex" where
  "str s = foldr (\<lambda>c r. Seq (lit c) r) s Eps"

definition str_ci :: "string \<Rightarrow> regex" where
  "str_ci s = foldr (\<lambda>c r. Seq (lit_ci c) r) s Eps"

definition digit :: regex where
  \<comment> \<open>\<open>\d\<close>\<close>
  "digit = Atom is_digit"

definition space :: regex where
  \<comment> \<open>\<open>\s\<close>\<close>
  "space = Atom is_space"

definition dot :: regex where
  \<comment> \<open>\<open>.\<close>: any character but a newline\<close>
  "dot = Atom (\<lambda>c. c \<noteq> newline)"

definition one_of :: "string \<Rightarrow> regex" where
  \<comment> \<open>a character set \<open>[...]\<close>\<close>
  "one_of cs = Atom (\<lambda>c. c \<in> set cs)"

definition Opt :: "regex \<Rightarrow> regex" where
  \<comment> \<open>\<open>r?\<close>, greedy\<close>
  "Opt r = Alt r Eps"

definition Plus :: "regex \<Rightarrow> regex" where
  \<comment> \<open>\<open>r+\<close>, greedy\<close>
  "Plus r = Seq r (Star r)"

primrec upto_times :: "nat \<Rightarrow> regex \<Rightarrow> regex" where
  \<comment> \<open>\<open>r{0,n}\<close>, greedy\<close>
  "upto_times 0 r = Eps"
| "upto_times (Suc n) r = Opt (Seq r (upto_times n r))"

primrec times :: "nat \<Rightarrow> regex \<Rightarrow> regex" where
  \<comment> \<open>\<open>r{n}\<close>\<close>
  "times 0 r = Eps"
| "times (Suc n) r = Seq r (times n r)"

definition between :: "nat \<Rightarrow> nat \<Rightarrow> regex \<Rightarrow> regex" where
  \<comment> \<open>\<open>r{lo,hi}\<close>, greedy\<close>
  "between lo hi r = Seq (times lo r) (upto_times (hi - lo) r)"

fun seqs :: "regex list \<Rightarrow> regex" where
  "seqs [] = Eps"
| "seqs [r] = r"
| "seqs (r # rs) = Seq r (seqs rs)"

section \<open>The price normalizer\<close>

definition amount :: regex where
  \<comment> \<open>\<open>\d{1,3}(?:[.,]\d{3})*(?:[.,]\d{0,3})\<close>; the last part is not optional\<close>
  "amount = seqs [between 1 3 digit,
                  Star (Seq (one_of ''.,'') (times 3 digit)),
                  Seq (one_of ''.,'') (between 0 3 digit)]"

definition rp_prefix :: regex where
  \<comment> \<open>\<open>(?:Rp\.?|Rp)?\<close>\<close>
  "rp_prefix = Opt (Alt (Seq (str ''Rp'') (Opt (lit CHR ''.''))) (str ''Rp''))"

definition price_pattern :: regex where
  \<comment> \<open>\<open>self.price_pattern\<close>: \<open>(?:Rp\.?|Rp)?\s*(\d{1,3}(?:[.,]\d{3})*(?:[.,]\d{0,3}))\<close>\<close>
  "price_pattern = seqs [rp_prefix, Star space, Group 1 amount]"

definition scale_small :: "rat \<Rightarrow> rat" where
  \<comment> \<open>\<open>if 0 < price < 1000: price *= 1000\<close>\<close>
  "scale_small price = (if 0 < price \<and> price < 1000 then price * 1000 else price)"

definition fix_separators :: "string \<Rightarrow> string" where
  \<comment> \<open>the separator handling of \<open>fix_price_format\<close>, on the cleaned string\<close>
  "fix_separators price_str =
     (if CHR '','' \<in> set price_str \<and> CHR ''.'' \<in> set price_str
      then replace_char (CHR '','') ''.'' (replace_char (CHR ''.'') [] price_str)
      else if CHR '','' \<in> set price_str
      then (if ends_with '',00'' price_str \<or> ends_with '',0'' price_str
            then replace_char (CHR '','') ''.'' price_str
            else replace_char (CHR '','') [] price_str)
      else price_str)"

definition clean_price :: "string \<Rightarrow> string" where
  \<comment> \<open>\<open>re.sub(r'[^\d.,]', '', price_str)\<close>\<close>
  "clean_price price_str = filter (\<lambda>c. is_digit c \<or> c = CHR ''.'' \<or> c = CHR '','') price_str"

definition fix_price_format :: "string \<Rightarrow> rat" where
  "fix_price_format price_str =
     (case py_float (fix_separators (clean_price price_str)) of
        None \<Rightarrow> 0
      | Some price \<Rightarrow> scale_small price)"

section \<open>The data model\<close>

text \<open>
  One recognized fragment, as \<open>extract_text\<close> builds it from a line of the OCR result:
  the text, the four corner points of its box (the first is the top-left one) and the
  confidence.
\<close>

type_synonym point = "rat \<times> rat"

record text_result =
  text_of :: string  \<comment> \<open>the key \<open>'text'\<close>\<close>
  position :: "point \<times> point \<times> point \<times> point"
  confidence :: rat

definition top_y :: "text_result \<Rightarrow> rat" where
  \<comment> \<open>the sort key \<open>x['position'][0][1]\<close>\<close>
  "top_y x = snd (fst (position x))"

datatype receipt_type = GOMACHI | CHATIME | SUSHIGO | HOKBEN | INDOMARET | WARUNG_CE | UNKNOWN

datatype category = FOOD | BEVERAGE | SNACK | GROCERY | HOUSEHOLD | PERSONAL_CARE | OTHER

datatype payment_method =
  CASH | CARD | DEBIT | CREDIT | QR_PAYMENT | OVO | GOPAY | DANA | BCA | MANDIRI | UNKNOWN_METHOD

record item =
  name :: string
  quantity :: int
  price :: rat
  category :: category

record totals =
  subtotal :: "rat option"
  tax :: "rat option"
  service_charge :: "rat option"
  total :: "rat option"

text \<open>The values stored in the result dictionary of \<open>process_receipt\<close>.\<close>

datatype pyval =
    PBool bool
  | PStr string
  | PFloat rat
  | PNone
  | PItems "item list"
  | PType receipt_type
  | PMethod payment_method

type_synonym result = "(string \<times> pyval) list"

definition any_in :: "string list \<Rightarrow> string \<Rightarrow> bool" where
  \<comment> \<open>\<open>any(keyword in s for keyword in keywords)\<close>\<close>
  "any_in keywords s = list_ex (\<lambda>keyword. contains keyword s) keywords"

section \<open>Reading the OCR result\<close>

type_synonym ocr_line = "(point \<times> point \<times> point \<times> point) \<times> string \<times> rat"

definition extract_text :: "ocr_line list \<Rightarrow> text_result list \<times> string" where
  \<comment> \<open>the argument is \<open>result[0]\<close> of the OCR engine, an empty list when it found
      nothing; the full text joins the texts in detection order\<close>
  "extract_text lines =
     (if lines = [] then ([], [])
      else (map (\<lambda>line. \<lparr>text_of = fst (snd line), position = fst line,
                           confidence = snd (snd line)\<rparr>) lines,
            join [newline] (map (\<lambda>line. fst (snd line)) lines)))"

section \<open>Receipt classifier and merchant name\<close>

definition identify_receipt_type :: "string \<Rightarrow> receipt_type" where
  "identify_receipt_type txt =
     (let text_lower = lower txt in
      if contains ''gomachi'' text_lower \<or> contains ''japanese ramen'' text_lower
         \<or> contains ''gemachi'' text_lower then GOMACHI
      else if contains ''chatime'' text_lower \<or> contains ''milk tea'' text_lower
         \<or> contains ''chatine'' text_lower then CHATIME
      else if contains ''sushigo'' text_lower \<or> contains ''one price sushi'' text_lower
        then SUSHIGO
      else if contains ''hokben'' text_lower \<or> contains ''hoka ichiman'' text_lower
        then HOKBEN
      else if contains ''indomaret'' text_lower \<or> contains ''indomarco'' text_lower
        then INDOMARET
      else if contains ''warung ce'' text_lower \<or> contains ''goldfinch'' text_lower
        then WARUNG_CE
      else UNKNOWN)"

definition merchant_hit :: "receipt_type \<Rightarrow> string \<Rightarrow> string option" where
  \<comment> \<open>the body of the loop of \<open>extract_merchant_name\<close>: what it returns at one
      fragment, \<open>None\<close> when it goes on to the next\<close>
  "merchant_hit receipt_type txt =
     (if receipt_type = GOMACHI \<and> (contains ''Gomachi'' txt \<or> contains ''GOMACHI'' txt
           \<or> contains ''Gemachi'' txt) then Some ''Gomachi''
      else if receipt_type = CHATIME \<and> (contains ''Chatime'' txt \<or> contains ''CHATIME'' txt
           \<or> contains ''Chatine'' txt) then Some ''Chatime''
      else if receipt_type = SUSHIGO \<and> (contains ''SUSHIGO'' txt \<or> contains ''Sushigo'' txt)
        then Some txt
      else if receipt_type = HOKBEN \<and> (contains ''HOKBEN'' txt \<or> contains ''HokBen'' txt)
        then Some txt
      else if receipt_type = INDOMARET \<and> (contains ''INDOMARET'' txt \<or> contains ''Indomaret'' txt)
        then Some txt
      else if receipt_type = WARUNG_CE \<and> (contains ''Warung Ce'' txt \<or> contains ''WARUNG CE'' txt)
        then Some txt
      else None)"

fun merchant_scan :: "receipt_type \<Rightarrow> text_result list \<Rightarrow> string option" where
  "merchant_scan receipt_type [] = None"
| "merchant_scan receipt_type (x # xs) =
     (case merchant_hit receipt_type (text_of x) of
        Some m \<Rightarrow> Some m
      | None \<Rightarrow> merchant_scan receipt_type xs)"

definition extract_merchant_name :: "text_result list \<Rightarrow> receipt_type \<Rightarrow> string" where
  "extract_merchant_name text_results receipt_type =
     (let sorted_text = sort_key top_y text_results in
      case merchant_scan receipt_type (take (min 5 (length sorted_text)) sorted_text) of
        Some m \<Rightarrow> m
      | None \<Rightarrow> (case sorted_text of [] \<Rightarrow> ''Unknown Merchant'' | x # _ \<Rightarrow> text_of x))"

section \<open>Date and time\<close>

text \<open>
  \<open>datetime.strptime\<close> and \<open>strftime\<close> belong to the Python library, not to the
  receipt processor; they are parameters of the model. \<open>strptime lib s fmt = None\<close>
  stands for the \<open>ValueError\<close> that the source catches.
\<close>

record datetime =
  year :: nat
  month :: nat
  day :: nat
  hour :: nat
  minute :: nat
  second :: nat

record datetime_lib =
  strptime :: "string \<Rightarrow> string \<Rightarrow> datetime option"
  strftime :: "datetime \<Rightarrow> string \<Rightarrow> string"

definition date_pattern :: regex where
  \<comment> \<open>\<open>(\d{1,2}[-/.]\d{1,2}[-/.]\d{2,4}|\d{1,2}\s+[A-Za-z]+\s+\d{2,4})\<close>\<close>
  "date_pattern =
     Group 1 (Alt (seqs [between 1 2 digit, one_of ''-/.'', between 1 2 digit,
                         one_of ''-/.'', between 2 4 digit])
                  (seqs [between 1 2 digit, Plus space, Plus (Atom is_alpha),
                         Plus space, between 2 4 digit]))"

definition time_pattern :: regex where
  \<comment> \<open>\<open>(\d{1,2}:\d{2}(?::\d{2})?)\<close>\<close>
  "time_pattern =
     Group 1 (seqs [between 1 2 digit, lit CHR '':'', times 2 digit,
                    Opt (Seq (lit CHR '':'') (times 2 digit))])"

definition date_formats :: "string list" where
  "date_formats =
     [''%d/%m/%Y'', ''%d/%m/%y'', ''%d-%m-%Y'', ''%d-%m-%y'',
      ''%d.%m.%Y'', ''%d.%m.%y'', ''%d %B %Y'', ''%d %b %Y'',
      ''%Y/%m/%d'', ''%y/%m/%d'', ''%Y-%m-%d'', ''%y-%m-%d'',
      ''%Y.%m.%d'', ''%y.%m.%d'', ''%B %d %Y'', ''%b %d %Y'']"

definition time_formats :: "string list" where
  "time_formats = [''%H:%M:%S'', ''%H:%M'', ''%I:%M:%S %p'', ''%I:%M %p'']"

fun try_formats :: "datetime_lib \<Rightarrow> string \<Rightarrow> string \<Rightarrow> string list \<Rightarrow> string" where
  \<comment> \<open>the loop over the formats: the first that parses gives the result in the
      format \<open>out\<close>; when none does, the original string\<close>
  "try_formats lib out s [] = s"
| "try_formats lib out s (fmt # fmts) =
     (case strptime lib s fmt of
        Some d \<Rightarrow> strftime lib d out
      | None \<Rightarrow> try_formats lib out s fmts)"

definition standardize_date_format :: "datetime_lib \<Rightarrow> string \<Rightarrow> string" where
  "standardize_date_format lib date_str =
     (if date_str = [] then [] else try_formats lib ''%d/%m/%Y'' date_str date_formats)"

definition standardize_time_format :: "datetime_lib \<Rightarrow> string \<Rightarrow> string" where
  "standardize_time_format lib time_str =
     (if time_str = [] then [] else try_formats lib ''%H:%M'' time_str time_formats)"

definition extract_date_time :: "datetime_lib \<Rightarrow> string \<Rightarrow> string \<times> string" where
  "extract_date_time lib full_text =
     (let date = (case re_search date_pattern full_text of
                    Some date_match \<Rightarrow> standardize_date_format lib (group date_match 1)
                  | None \<Rightarrow> []);
          time = (case re_search time_pattern full_text of
                    Some time_match \<Rightarrow> standardize_time_format lib (group time_match 1)
                  | None \<Rightarrow> [])
      in (date, time))"

section \<open>The validity filter\<close>

definition non_item_keywords :: "string list" where
  \<comment> \<open>\<open>self.non_item_keywords\<close>\<close>
  "non_item_keywords =
     [''total'', ''subtotal'', ''sub total'', ''pajak'', ''tax'', ''service'', ''charge'',
      ''amount'', ''jumlah'', ''tunai'', ''cash'', ''card'', ''kartu'', ''debit'',
      ''credit'', ''kredit'', ''change'', ''kembalian'', ''kembali'', ''date'', ''time'',
      ''tanggal'', ''waktu'', ''receipt'', ''invoice'', ''customer'', ''pelanggan'',
      ''thank'', ''terima kasih'', ''sales'', ''queue'', ''antrian'', ''no.'', ''nomor'',
      ''table'', ''meja'', ''rcpt'', ''bill'', ''order'', ''cashier'', ''kasir'', ''pax'',
      ''guest'', ''phone'', ''telp'', ''address'', ''alamat'', ''jalan'', ''street'',
      ''kota'', ''city'', ''provinsi'', ''province'', ''kode pos'', ''postal code'', ''zip'',
      ''npwp'', ''tax id'', ''produk'', ''product'', ''item'', ''qty'', ''quantity'',
      ''harga'', ''price'', ''disc'', ''discount'', ''potongan'', ''ppn'', ''vat'', ''dpp'',
      ''pbj'', ''gedung'', ''building'', ''menara'', ''tower'', ''plaza'', ''mall'', ''kec'',
      ''kecamatan'', ''district'', ''kelurahan'', ''desa'', ''village'', ''rt'', ''rw'',
      ''blok'', ''block'', ''jl'', ''jln'', ''jalan'', ''street'', ''avenue'', ''lane'',
      ''road'', ''boulevard'', ''highway'', ''kabupaten'', ''regency'', ''kota'', ''city'',
      ''provinsi'', ''province'', ''indonesia'', ''jakarta'', ''bandung'', ''surabaya'',
      ''medan'', ''makassar'', ''semarang'', ''palembang'', ''tangerang'', ''depok'',
      ''bekasi'', ''batam'', ''pekanbaru'', ''bogor'', ''padang'', ''malang'', ''samarinda'',
      ''tasikmalaya'', ''pontianak'', ''banjarmasin'', ''balikpapan'', ''manado'',
      ''denpasar'', ''serang'', ''jambi'', ''bengkulu'', ''ambon'', ''palu'', ''mataram'',
      ''kupang'', ''jayapura'', ''ternate'', ''tanjung pinang'', ''pangkal pinang'',
      ''gorontalo'', ''mamuju'', ''kendari'', ''banda aceh'', ''tanjung selor'',
      ''manokwari'', ''sofifi'', ''mamuju'', ''nabire'', ''merauke'', ''sorong'', ''biak'',
      ''timika'', ''wamena'', ''fakfak'', ''serui'', ''tembagapura'', ''subtota1'',
      ''subtota2'', ''subtota3'', ''subtota4'', ''subtota5'', ''subtota6'', ''subtota7'',
      ''subtota8'', ''subtota9'', ''subtota0'']"

definition non_item_patterns :: "regex list" where
  \<comment> \<open>the anchored patterns of \<open>is_valid_item_name\<close>, \<open>^rcpt\<close> to \<open>^sub\<close>\<close>
  "non_item_patterns =
     [seqs [Bol, str ''rcpt''], seqs [Bol, str ''receipt''], seqs [Bol, str ''invoice''],
      seqs [Bol, str ''bill''], seqs [Bol, str ''order''], seqs [Bol, str ''subtotal''],
      seqs [Bol, str ''sub'', Star space, str ''total''], seqs [Bol, str ''total''],
      seqs [Bol, str ''pajak''], seqs [Bol, str ''tax''], seqs [Bol, str ''service''],
      seqs [Bol, str ''charge''], seqs [Bol, str ''amount''], seqs [Bol, str ''jumlah''],
      seqs [Bol, str ''tunai''], seqs [Bol, str ''cash''], seqs [Bol, str ''card''],
      seqs [Bol, str ''kartu''], seqs [Bol, str ''debit''], seqs [Bol, str ''credit''],
      seqs [Bol, str ''kredit''], seqs [Bol, str ''change''], seqs [Bol, str ''kembalian''],
      seqs [Bol, str ''kembali''], seqs [Bol, str ''date''], seqs [Bol, str ''time''],
      seqs [Bol, str ''tanggal''], seqs [Bol, str ''waktu''], seqs [Bol, str ''customer''],
      seqs [Bol, str ''pelanggan''], seqs [Bol, str ''thank''],
      seqs [Bol, str ''terima'', Star space, str ''kasih''], seqs [Bol, str ''sales''],
      seqs [Bol, str ''queue''], seqs [Bol, str ''antrian''], seqs [Bol, str ''no.''],
      seqs [Bol, str ''nomor''], seqs [Bol, str ''table''], seqs [Bol, str ''meja''],
      seqs [Bol, str ''produk''], seqs [Bol, str ''product''], seqs [Bol, str ''qty''],
      seqs [Bol, str ''quantity''], seqs [Bol, str ''harga''], seqs [Bol, str ''price''],
      seqs [Bol, str ''disc''], seqs [Bol, str ''discount''], seqs [Bol, str ''potongan''],
      seqs [Bol, str ''ppn''], seqs [Bol, str ''vat''], seqs [Bol, str ''dpp''],
      seqs [Bol, str ''pbj''], seqs [Bol, str ''subtota'', digit], seqs [Bol, str ''kec.''],
      seqs [Bol, str ''kel.''], seqs [Bol, str ''jl.''], seqs [Bol, str ''jln.''],
      seqs [Bol, str ''rt.''], seqs [Bol, str ''rw.''], seqs [Bol, str ''blok''],
      seqs [Bol, str ''gedung''], seqs [Bol, str ''menara''], seqs [Bol, str ''plaza''],
      seqs [Bol, str ''mall''], seqs [Bol, str ''edc''], seqs [Bol, str ''bca''],
      seqs [Bol, str ''scrp''], seqs [Bol, str ''pb1rp''], seqs [Bol, str ''sub'']]"

definition only_numbers :: regex where
  \<comment> \<open>\<open>^\d+(\s*\d+)*$\<close>\<close>
  "only_numbers = seqs [Bol, Plus digit, Star (Group 1 (Seq (Star space) (Plus digit))), Eol]"

definition rp_number :: regex where
  \<comment> \<open>\<open>Rp\.?\s*\d+\<close>\<close>
  "rp_number = seqs [str ''Rp'', Opt (lit CHR ''.''), Star space, Plus digit]"

definition date_like :: regex where
  \<comment> \<open>\<open>\d{1,2}[-/.]\d{1,2}[-/.]\d{2,4}\<close>\<close>
  "date_like = seqs [between 1 2 digit, one_of ''-/.'', between 1 2 digit,
                     one_of ''-/.'', between 2 4 digit]"

definition time_like :: regex where
  \<comment> \<open>\<open>\d{1,2}:\d{2}(?::\d{2})?\<close>\<close>
  "time_like = seqs [between 1 2 digit, lit CHR '':'', times 2 digit,
                     Opt (Seq (lit CHR '':'') (times 2 digit))]"

definition five_digits :: regex where
  \<comment> \<open>\<open>\d{5}\<close>\<close>
  "five_digits = times 5 digit"

definition is_valid_item_name :: "string \<Rightarrow> bool" where
  "is_valid_item_name txt =
     (if length txt < 2 then False
      else if re_match only_numbers txt \<noteq> None then False
      else if re_search rp_number txt \<noteq> None then False
      else if list_ex (\<lambda>pattern. re_search pattern (lower txt) \<noteq> None) non_item_patterns
        then False
      else if any_in non_item_keywords (lower txt) then False
      else if re_search date_like txt \<noteq> None then False
      else if re_search time_like txt \<noteq> None then False
      else if re_search five_digits txt \<noteq> None then False
      else (let words = split_ws (strip txt) in
            if words \<noteq> [] \<and> lower (hd words) = ''less'' then False
            else if length words = 2 \<and> lower (words ! 1) = ''less'' then False
            else True))"

section \<open>Quantities and categories\<close>

definition int_of_digits :: "string \<Rightarrow> error + int" where
  \<comment> \<open>\<open>int(g)\<close> for a group \<open>g\<close> matched by \<open>\d+\<close>, outside any \<open>try\<close>: it raises
      when the group is longer than the limit\<close>
  "int_of_digits g =
     (if length g > int_max_str_digits then Inl ValueError else Inr (int (digits_val g)))"

definition quantity_name :: regex where
  \<comment> \<open>\<open>^(\d+)(\s*)(.+)$\<close>\<close>
  "quantity_name =
     seqs [Bol, Group 1 (Plus digit), Group 2 (Star space), Group 3 (Plus dot), Eol]"

definition extract_quantity_from_name :: "string \<Rightarrow> error + int \<times> string" where
  "extract_quantity_from_name item_name =
     (case re_match quantity_name item_name of
        Some quantity_match \<Rightarrow>
          (case int_of_digits (group quantity_match 1) of
             Inl e \<Rightarrow> Inl e
           | Inr qty \<Rightarrow> Inr (qty, group quantity_match 3))
      | None \<Rightarrow> Inr (1, item_name))"

definition categories :: "(category \<times> string list) list" where
  \<comment> \<open>\<open>self.categories\<close>, in the order of the dictionary\<close>
  "categories =
     [(FOOD, [''nasi'', ''mie'', ''ayam'', ''daging'', ''ikan'', ''sayur'', ''sushi'',
             ''ramen'', ''butadon'', ''gyoza'', ''chicken'', ''beef'', ''fish'',
             ''rice'', ''soup'']),
      (BEVERAGE, [''teh'', ''tea'', ''kopi'', ''coffee'', ''air'', ''water'', ''jus'',
              ''juice'', ''milk'', ''susu'', ''cappuccino'', ''latte'', ''espresso'',
              ''boba'', ''bubble'']),
      (SNACK, [''keripik'', ''chips'', ''kue'', ''cake'', ''coklat'', ''chocolate'',
              ''permen'', ''candy'', ''cookie'', ''biskuit'', ''biscuit'']),
      (GROCERY, [''beras'', ''rice'', ''minyak'', ''oil'', ''gula'', ''sugar'',
              ''tepung'', ''flour'', ''telur'', ''egg'']),
      (HOUSEHOLD, [''sabun'', ''soap'', ''deterjen'', ''detergent'', ''tissue'',
              ''pembersih'', ''cleaner'', ''sikat'', ''brush'']),
      (PERSONAL_CARE, [''shampo'', ''shampoo'', ''sikat'', ''brush'', ''pasta'',
              ''gigi'', ''tooth'', ''deodorant'', ''lotion''])]"

fun first_category :: "(category \<times> string list) list \<Rightarrow> string \<Rightarrow> category" where
  "first_category [] item_lower = OTHER"
| "first_category ((cat, keywords) # rest) item_lower =
     (if any_in keywords item_lower then cat else first_category rest item_lower)"

definition categorize_item :: "string \<Rightarrow> category" where
  "categorize_item item_name = first_category categories (lower item_name)"

definition qty_marker :: regex where
  \<comment> \<open>\<open>(\d+)\s*[xX]\<close>\<close>
  "qty_marker = seqs [Group 1 (Plus digit), Star space, one_of ''xX'']"

definition marker_quantity :: "string \<Rightarrow> error + int" where
  \<comment> \<open>\<open>quantity = 1\<close>, replaced by the number of the first \<open>digits x\<close> marker of the
      line when there is one\<close>
  "marker_quantity line =
     (case re_search qty_marker line of
        Some qty_match \<Rightarrow> int_of_digits (group qty_match 1)
      | None \<Rightarrow> Inr 1)"

definition leading_number :: regex where
  \<comment> \<open>\<open>^\d+\s*\<close>\<close>
  "leading_number = seqs [Bol, Plus digit, Star space]"

definition any_x :: regex where
  \<comment> \<open>\<open>\s*[xX]\s*\<close>\<close>
  "any_x = seqs [Star space, one_of ''xX'', Star space]"

definition leading_number_x :: regex where
  \<comment> \<open>\<open>^\d+\s*[xX]\s*\<close>\<close>
  "leading_number_x = seqs [Bol, Plus digit, Star space, one_of ''xX'', Star space]"

definition name_before_price :: "string \<Rightarrow> match_obj \<Rightarrow> string" where
  \<comment> \<open>\<open>line[:line.find(price_match.group(0))].strip()\<close>\<close>
  "name_before_price line price_match = strip (slice_to line (find line (group price_match 0)))"

definition make_item :: "regex \<Rightarrow> string \<Rightarrow> int \<Rightarrow> rat \<Rightarrow> error + item" where
  \<comment> \<open>the end of the loop body that \<open>extract_items\<close> and \<open>extract_items_alternative\<close>
      share, for a name that passed the filter; they differ in the second pattern
      deleted from the name, the argument \<open>x_pattern\<close>\<close>
  "make_item x_pattern item_name qty prc =
     (case extract_quantity_from_name item_name of
        Inl e \<Rightarrow> Inl e
      | Inr found \<Rightarrow>
          (let name_quantity = fst found;
               cleaned_item_name = snd found;
               qty' = (if name_quantity > 1 then name_quantity else qty);
               item_name' = (if name_quantity > 1 then cleaned_item_name else item_name);
               item_name'' = re_sub_empty x_pattern (re_sub_empty leading_number item_name')
           in Inr \<lparr>name = item_name'', quantity = qty', price = prc,
                   category = categorize_item item_name''\<rparr>))"

fun collect :: "('a \<Rightarrow> error + 'b list) \<Rightarrow> 'a list \<Rightarrow> error + 'b list" where
  \<comment> \<open>a \<open>for\<close> loop whose body appends to a list: the first exception ends it\<close>
  "collect body [] = Inr []"
| "collect body (x # xs) =
     (case body x of
        Inl e \<Rightarrow> Inl e
      | Inr found \<Rightarrow>
          (case collect body xs of
             Inl e \<Rightarrow> Inl e
           | Inr rest \<Rightarrow> Inr (found @ rest)))"

section \<open>Item extraction\<close>

subsection \<open>The strategy for Chatime receipts\<close>

definition item_pattern :: regex where
  \<comment> \<open>\<open>(\d+)\s*[xX]\s*([A-Za-z\s]+)(?:$$[A-Za-z]$$)?\s*(\d{1,3}(?:[.,]\d{3})*(?:[.,]\d{0,3}))\<close>;
      the optional part is written with \<open>$$\<close>, two end-of-text anchors on each side\<close>
  "item_pattern =
     seqs [Group 1 (Plus digit), Star space, one_of ''xX'', Star space,
           Group 2 (Plus (Atom (\<lambda>c. is_alpha c \<or> is_space c))),
           Opt (seqs [Eol, Eol, Atom is_alpha, Eol, Eol]),
           Star space, Group 3 amount]"

definition number_line :: regex where
  \<comment> \<open>\<open>^\s*\d+(?:[.,]\d+)*\s*$\<close>\<close>
  "number_line =
     seqs [Bol, Star space, Plus digit, Star (Seq (one_of ''.,'') (Plus digit)),
           Star space, Eol]"

definition chatime_pattern_line :: "string list \<Rightarrow> nat \<Rightarrow> error + item list" where
  \<comment> \<open>the body of the first loop, at line \<open>i\<close>: the items it appends; the quantity
      is converted first\<close>
  "chatime_pattern_line lines i =
     (case re_search item_pattern (lines ! i) of
        None \<Rightarrow> Inr []
      | Some m \<Rightarrow>
          (case int_of_digits (group m 1) of
             Inl e \<Rightarrow> Inl e
           | Inr qty \<Rightarrow>
               (let item_name = strip (group m 2);
                    item_name' = (if i + 1 < length lines \<and> contains ''SUGAR'' (lines ! (i + 1))
                                  then item_name @ '' ('' @ strip (lines ! (i + 1)) @ '')''
                                  else item_name)
                in Inr [\<lparr>name = item_name', quantity = qty,
                         price = fix_price_format (group m 3),
                         category = categorize_item item_name'\<rparr>])))"

definition chatime_x_line :: "string list \<Rightarrow> nat \<Rightarrow> item list" where
  \<comment> \<open>the body of the second loop, at line \<open>i\<close>; a \<open>ValueError\<close> of \<open>int\<close> skips
      the line\<close>
  "chatime_x_line lines i =
     (let line = lines ! i in
      if contains ''x'' (lower line) \<and> \<not> any_in [''subtotal'', ''total'', ''tax''] (lower line)
      then
        (let price_match = re_search price_pattern line;
             prc = (case price_match of
                      Some pm \<Rightarrow> fix_price_format (group pm 1)
                    | None \<Rightarrow>
                        (if i + 1 < length lines
                         then (let next_line = lines ! (i + 1) in
                               if re_match number_line (strip next_line) \<noteq> None
                               then fix_price_format (strip next_line) else 0)
                         else 0))
         in if prc > 0
            then (let parts = split_once (CHR ''x'') line in
                  if length parts = 2
                  then (case py_int (strip (parts ! 0)) of
                          None \<Rightarrow> []
                        | Some qty \<Rightarrow>
                            (let item_name =
                                   (case price_match of
                                      None \<Rightarrow> strip (parts ! 1)
                                    | Some pm \<Rightarrow>
                                        (let n = name_before_price line pm in
                                         if contains ''x'' n
                                         then strip (split_once (CHR ''x'') n ! 1) else n))
                             in [\<lparr>name = item_name, quantity = qty, price = prc,
                                  category = categorize_item item_name\<rparr>]))
                  else [])
            else [])
      else [])"

definition extract_items_from_chatime_receipt ::
  "text_result list \<Rightarrow> string \<Rightarrow> error + item list" where
  "extract_items_from_chatime_receipt text_results full_text =
     (let lines = split_char newline full_text in
      case collect (chatime_pattern_line lines) [0..<length lines] of
        Inl e \<Rightarrow> Inl e
      | Inr items \<Rightarrow>
          if items = [] then Inr (concat (map (chatime_x_line lines) [0..<length lines]))
          else Inr items)"

subsection \<open>The text-line strategy\<close>

definition footer_keywords :: "string list" where
  "footer_keywords = [''subtotal'', ''sub total'', ''total'', ''pajak'', ''tax'']"

definition alternative_line :: "string list \<Rightarrow> nat \<Rightarrow> error + item list" where
  \<comment> \<open>the body of the first loop of \<open>extract_items_alternative\<close>, at line \<open>i\<close>; the
      marker quantity is converted before the name is checked\<close>
  "alternative_line lines i =
     (let line = lines ! i in
      if i < 3 then Inr []
      else if any_in footer_keywords (lower line) then Inr []
      else
        (case re_search price_pattern line of
           None \<Rightarrow> Inr []
         | Some price_match \<Rightarrow>
             (let prc = fix_price_format (group price_match 1);
                  item_name = name_before_price line price_match;
                  item_name' = (if item_name = [] \<and> i > 0
                                then (let prev_line = lines ! (i - 1) in
                                      if is_valid_item_name prev_line then prev_line
                                      else item_name)
                                else item_name)
              in case marker_quantity line of
                   Inl e \<Rightarrow> Inl e
                 | Inr qty \<Rightarrow>
                     if is_valid_item_name item_name'
                     then (case make_item leading_number_x item_name' qty prc of
                             Inl e \<Rightarrow> Inl e
                           | Inr it \<Rightarrow> Inr [it])
                     else Inr [])))"

definition marker_or_leading :: "string \<Rightarrow> error + int \<times> string" where
  \<comment> \<open>the quantity of the two hardcoded scans, with the line as they leave it: the
      \<open>digits x\<close> marker when there is one, otherwise a leading number above 1, which
      is then cut off the line\<close>
  "marker_or_leading line =
     (case re_search qty_marker line of
        Some qty_match \<Rightarrow>
          (case int_of_digits (group qty_match 1) of
             Inl e \<Rightarrow> Inl e
           | Inr qty \<Rightarrow> Inr (qty, line))
      | None \<Rightarrow>
          (case extract_quantity_from_name (strip line) of
             Inl e \<Rightarrow> Inl e
           | Inr found \<Rightarrow> if fst found > 1 then Inr found else Inr (1, line)))"

definition sushigo_line :: "string \<Rightarrow> error + item list" where
  \<comment> \<open>the body of the SUSHIGO scan; the computed \<open>cleaned_name\<close> is not used by the
      source, the name is \<open>line.strip()\<close>\<close>
  "sushigo_line line =
     (if contains ''PIRING'' line \<or> contains ''PLATE'' line
      then (case re_search price_pattern line of
              None \<Rightarrow> Inr []
            | Some price_match \<Rightarrow>
                (case marker_or_leading line of
                   Inl e \<Rightarrow> Inl e
                 | Inr found \<Rightarrow>
                     if is_valid_item_name (strip (snd found))
                     then Inr [\<lparr>name = strip (snd found), quantity = fst found,
                               price = fix_price_format (group price_match 1),
                               category = FOOD\<rparr>]
                     else Inr []))
      else Inr [])"

definition gomachi_line :: "string list \<Rightarrow> nat \<Rightarrow> error + item list" where
  \<comment> \<open>the body of the GOMACHI scan, at line \<open>i\<close>; here too the name is \<open>line.strip()\<close>\<close>
  "gomachi_line lines i =
     (let line = lines ! i in
      if contains ''BUTADON'' line \<or> contains ''RAMEN'' line \<or> contains ''GYOZA'' line
      then
        (let prc = (case re_search price_pattern line of
                      Some price_match \<Rightarrow> fix_price_format (group price_match 1)
                    | None \<Rightarrow>
                        (if i + 1 < length lines
                         then (case re_search price_pattern (lines ! (i + 1)) of
                                 Some price_match \<Rightarrow> fix_price_format (group price_match 1)
                               | None \<Rightarrow> 0)
                         else 0))
         in if prc > 0 \<and> is_valid_item_name (strip line)
            then (case marker_or_leading line of
                    Inl e \<Rightarrow> Inl e
                  | Inr found \<Rightarrow>
                      Inr [\<lparr>name = strip (snd found), quantity = fst found, price = prc,
                            category = FOOD\<rparr>])
            else Inr [])
      else Inr [])"

definition extract_items_alternative :: "string \<Rightarrow> receipt_type \<Rightarrow> error + item list" where
  "extract_items_alternative full_text receipt_type =
     (let lines = split_char newline full_text in
      case collect (alternative_line lines) [0..<length lines] of
        Inl e \<Rightarrow> Inl e
      | Inr items \<Rightarrow>
          if receipt_type = SUSHIGO \<and> items = [] then collect sushigo_line lines
          else if receipt_type = GOMACHI \<and> items = []
            then collect (gomachi_line lines) [0..<length lines]
          else Inr items)"

subsection \<open>The position-based strategy\<close>

fun first_index :: "('a \<Rightarrow> bool) \<Rightarrow> 'a list \<Rightarrow> nat option" where
  \<comment> \<open>the index at which a \<open>for ... if ...: break\<close> loop stops\<close>
  "first_index P [] = None"
| "first_index P (x # xs) =
     (if P x then Some 0 else map_option Suc (first_index P xs))"

definition header_end_idx :: "text_result list \<Rightarrow> nat" where
  \<comment> \<open>\<open>int(len(sorted_text) * 0.15)\<close> is the integer part of 15 percent of the length\<close>
  "header_end_idx sorted_text =
     (let found = (case first_index
                          (\<lambda>x. any_in [''item'', ''description'', ''qty'', ''price'',
                                        ''amount'', ''jumlah''] (lower (text_of x)))
                          sorted_text of
                     Some i \<Rightarrow> i + 1
                   | None \<Rightarrow> 0)
      in if found = 0 then max 5 (length sorted_text * 15 div 100) else found)"

definition footer_start_idx :: "text_result list \<Rightarrow> int" where
  \<comment> \<open>\<open>len(sorted_text) - 5\<close> is negative for fewer than five fragments\<close>
  "footer_start_idx sorted_text =
     (let n = int (length sorted_text);
          found = (case first_index (\<lambda>x. any_in footer_keywords (lower (text_of x)))
                          sorted_text of
                     Some i \<Rightarrow> int i
                   | None \<Rightarrow> n)
      in if found = n then min (n - 5) (n * 85 div 100) else found)"

definition range_idx :: "nat \<Rightarrow> int \<Rightarrow> nat list" where
  \<comment> \<open>\<open>range(lo, hi)\<close> for a natural \<open>lo\<close>: empty when \<open>hi \<le> lo\<close>\<close>
  "range_idx lo hi = [lo..<nat hi]"

definition position_line :: "text_result list \<Rightarrow> nat \<Rightarrow> error + item list" where
  \<comment> \<open>the body of the main loop of \<open>extract_items\<close>, at fragment \<open>i\<close>; the marker
      quantity is converted before the name is checked\<close>
  "position_line sorted_text i =
     (let line = text_of (sorted_text ! i) in
      case re_search price_pattern line of
        None \<Rightarrow> Inr []
      | Some price_match \<Rightarrow>
          (let prc = fix_price_format (group price_match 1);
               item_name = name_before_price line price_match;
               item_name' =
                 (if item_name = [] \<and> i > 0
                  then (let prev_line = text_of (sorted_text ! (i - 1)) in
                        if re_search price_pattern prev_line = None \<and>
                           \<not> any_in [''item'', ''description'', ''qty'', ''price'']
                                (lower prev_line)
                        then prev_line else item_name)
                  else item_name)
           in case marker_quantity line of
                Inl e \<Rightarrow> Inl e
              | Inr qty \<Rightarrow>
                  if item_name' \<noteq> [] \<and> length item_name' \<ge> 2
                  then (if is_valid_item_name item_name'
                        then (case make_item any_x item_name' qty prc of
                                Inl e \<Rightarrow> Inl e
                              | Inr it \<Rightarrow> Inr [it])
                        else Inr [])
                  else Inr []))"

definition extract_items ::
  "text_result list \<Rightarrow> receipt_type \<Rightarrow> string \<Rightarrow> error + item list" where
  "extract_items text_results receipt_type full_text =
     (if receipt_type = CHATIME
      then extract_items_from_chatime_receipt text_results full_text
      else
        (let sorted_text = sort_key top_y text_results in
         case collect (position_line sorted_text)
                (range_idx (header_end_idx sorted_text) (footer_start_idx sorted_text)) of
           Inl e \<Rightarrow> Inl e
         | Inr items \<Rightarrow>
             if items = [] then extract_items_alternative full_text receipt_type
             else Inr items))"

section \<open>Totals and payment method\<close>

definition rp_prefix_ci :: regex where
  \<comment> \<open>\<open>(?:Rp\.?|Rp)?\<close> under \<open>re.IGNORECASE\<close>\<close>
  "rp_prefix_ci = Opt (Alt (Seq (str_ci ''Rp'') (Opt (lit CHR ''.''))) (str_ci ''Rp''))"

definition keyword_amount :: "regex \<Rightarrow> regex" where
  \<comment> \<open>a keyword part followed by
      \<open>.*?(?:Rp\.?|Rp)?\s*(\d{1,3}(?:[.,]\d{3})*(?:[.,]\d{0,3}))\<close>\<close>
  "keyword_amount kw = seqs [kw, LazyStar dot, rp_prefix_ci, Star space, Group 1 amount]"

definition subtotal_pattern :: regex where
  \<comment> \<open>\<open>(?:subtotal|sub\s*total)\<close> and the amount\<close>
  "subtotal_pattern =
     keyword_amount (Alt (str_ci ''subtotal'') (seqs [str_ci ''sub'', Star space, str_ci ''total'']))"

definition tax_pattern :: regex where
  \<comment> \<open>\<open>(?:tax|pajak|pb1)\<close> and the amount\<close>
  "tax_pattern = keyword_amount (Alt (str_ci ''tax'') (Alt (str_ci ''pajak'') (str_ci ''pb1'')))"

definition service_pattern :: regex where
  \<comment> \<open>\<open>(?:service|charge)\<close> and the amount\<close>
  "service_pattern = keyword_amount (Alt (str_ci ''service'') (str_ci ''charge''))"

definition total_keyword :: regex where
  \<comment> \<open>\<open>(?:^|\s)total\<close>; without \<open>re.MULTILINE\<close> the anchor is the start of the text\<close>
  "total_keyword = Seq (Alt Bol space) (str_ci ''total'')"

definition total_pattern :: regex where
  "total_pattern = keyword_amount total_keyword"

definition extract_amount :: "regex \<Rightarrow> string \<Rightarrow> rat option" where
  \<comment> \<open>one field of \<open>extract_totals\<close>: \<open>None\<close> unless the pattern is found\<close>
  "extract_amount pattern full_text =
     (case re_search pattern full_text of
        Some m \<Rightarrow> Some (fix_price_format (group m 1))
      | None \<Rightarrow> None)"

definition extract_totals :: "string \<Rightarrow> totals" where
  "extract_totals full_text =
     \<lparr>subtotal = extract_amount subtotal_pattern full_text,
      tax = extract_amount tax_pattern full_text,
      service_charge = extract_amount service_pattern full_text,
      total = extract_amount total_pattern full_text\<rparr>"

definition calculate_total :: "item list \<Rightarrow> totals \<Rightarrow> rat" where
  "calculate_total items tots =
     (case total tots of
        Some t \<Rightarrow> t
      | None \<Rightarrow>
          (let items_total = sum_list (map price items);
               items_total' = (case tax tots of Some t \<Rightarrow> items_total + t | None \<Rightarrow> items_total)
           in case service_charge tots of
                Some c \<Rightarrow> items_total' + c
              | None \<Rightarrow> items_total'))"

definition payment_methods :: "(payment_method \<times> string list) list" where
  "payment_methods =
     [(CASH, [''cash'', ''tunai'', ''uang tunai'']),
      (CARD, [''card'', ''kartu'', ''edc'']),
      (DEBIT, [''debit'']),
      (CREDIT, [''credit'', ''kredit'', ''cc'']),
      (QR_PAYMENT, [''qr'', ''qris'']),
      (OVO, [''ovo'']),
      (GOPAY, [''gopay'', ''gojek'']),
      (DANA, [''dana'']),
      (BCA, [''bca'']),
      (MANDIRI, [''mandiri''])]"

fun first_method :: "(payment_method \<times> string list) list \<Rightarrow> string \<Rightarrow> payment_method" where
  "first_method [] text_lower = UNKNOWN_METHOD"
| "first_method ((method, keywords) # rest) text_lower =
     (if any_in keywords text_lower then method else first_method rest text_lower)"

definition extract_payment_method :: "string \<Rightarrow> payment_method" where
  "extract_payment_method full_text = first_method payment_methods (lower full_text)"

section \<open>The pipeline\<close>

definition opt_float :: "rat option \<Rightarrow> pyval" where
  "opt_float v = (case v of Some x \<Rightarrow> PFloat x | None \<Rightarrow> PNone)"

definition process_receipt :: "datetime_lib \<Rightarrow> ocr_line list \<Rightarrow> error + result" where
  \<comment> \<open>the result dictionary, as its list of keys and values, or the exception that
      leaves the function; the argument is what the OCR engine returns for the image\<close>
  "process_receipt lib ocr =
     (let text_results = fst (extract_text ocr);
          full_text = snd (extract_text ocr)
      in if text_results = []
         then Inr [(''success'', PBool False),
                   (''error'', PStr ''No text detected in the image'')]
         else
           (let receipt_type = identify_receipt_type full_text;
                merchant_name = extract_merchant_name text_results receipt_type;
                date_time = extract_date_time lib full_text
            in case extract_items text_results receipt_type full_text of
                 Inl e \<Rightarrow> Inl e
               | Inr items \<Rightarrow>
                   (let tots = extract_totals full_text;
                        tot = calculate_total items tots;
                        payment = extract_payment_method full_text
                    in Inr [(''success'', PBool True),
                            (''merchant_name'', PStr merchant_name),
                            (''receipt_type'', PType receipt_type),
                            (''date'', PStr (fst date_time)),
                            (''time'', PStr (snd date_time)),
                            (''items'', PItems items),
                            (''subtotal'', opt_float (subtotal tots)),
                            (''tax'', opt_float (tax tots)),
                            (''service_charge'', opt_float (service_charge tots)),
                            (''total'', PFloat tot),
                            (''payment_method'', PMethod payment),
                            (''raw_text'', PStr full_text)])))"

definition result_field :: "string \<Rightarrow> error + result \<Rightarrow> pyval option" where
  \<comment> \<open>\<open>result[key]\<close> of a returned dictionary; \<open>None\<close> when the key is missing or
      no dictionary is returned\<close>
  "result_field key r = (case r of Inl e \<Rightarrow> None | Inr d \<Rightarrow> map_of d key)"

section \<open>Example inputs\<close>

text \<open>
  Concrete OCR results for the worked examples: the given texts in rows from top to
  bottom, each in a box 100 wide and 10 high, 20 apart, with confidence 1. The examples
  carry no date or time that parses, so a library whose parser rejects every string
  stands for \<open>datetime\<close> there.
\<close>

definition box_at :: "rat \<Rightarrow> point \<times> point \<times> point \<times> point" where
  "box_at y = ((0, y), (100, y), (100, y + 10), (0, y + 10))"

definition ocr_rows :: "string list \<Rightarrow> ocr_line list" where
  "ocr_rows texts = map (\<lambda>it. (box_at (20 * of_nat (fst it)), snd it, 1)) (enumerate 0 texts)"

definition rejecting_lib :: datetime_lib where
  "rejecting_lib = \<lparr>strptime = (\<lambda>s fmt. None), strftime = (\<lambda>d fmt. [])\<rparr>"

definition gomachi_receipt :: "ocr_line list" where
  "gomachi_receipt = ocr_rows [''GOMACHI RESTO'', ''2 GYOZA 25.000'', ''TOTAL 25.000'']"

definition gomachi_text :: string where
  \<comment> \<open>the full text of \<open>gomachi_receipt\<close>\<close>
  "gomachi_text =
     ''GOMACHI RESTO'' @ [newline] @ ''2 GYOZA 25.000'' @ [newline] @ ''TOTAL 25.000''"

definition gomachi_tax_receipt :: "ocr_line list" where
  "gomachi_tax_receipt = ocr_rows [''GOMACHI RESTO'', ''2 GYOZA 25.000'', ''PB1 2.500'']"

definition gomachi_tax_text :: string where
  \<comment> \<open>the full text of \<open>gomachi_tax_receipt\<close>\<close>
  "gomachi_tax_text =
     ''GOMACHI RESTO'' @ [newline] @ ''2 GYOZA 25.000'' @ [newline] @ ''PB1 2.500''"


definition long_digits :: string where
  \<comment> \<open>a run of 4301 digits, one more than \<open>int\<close> converts\<close>
  "long_digits = replicate 4301 (CHR ''1'')"

definition long_marker_receipt :: "ocr_line list" where
  "long_marker_receipt =
     ocr_rows [''TOKO ROTI'', ''Bon 1'', ''Bon 2'', ''Bon 3'', ''Bon 4'',
               long_digits @ ''x Bread 5.000'', ''TOTAL 5.000'']"

definition chatime_minus_text :: string where
  "chatime_minus_text = ''CHATIME'' @ [newline] @ ''-2 x TEA-1 5.000''"

definition merchant_aliases :: "receipt_type \<Rightarrow> string list" where
  \<comment> \<open>the literals that \<open>extract_merchant_name\<close> looks for, by receipt type; the
      table is read off the conditions of its loop and is used to state what it returns\<close>
  "merchant_aliases receipt_type =
     (case receipt_type of
        GOMACHI \<Rightarrow> [''Gomachi'', ''GOMACHI'', ''Gemachi'']
      | CHATIME \<Rightarrow> [''Chatime'', ''CHATIME'', ''Chatine'']
      | SUSHIGO \<Rightarrow> [''SUSHIGO'', ''Sushigo'']
      | HOKBEN \<Rightarrow> [''HOKBEN'', ''HokBen'']
      | INDOMARET \<Rightarrow> [''INDOMARET'', ''Indomaret'']
      | WARUNG_CE \<Rightarrow> [''Warung Ce'', ''WARUNG CE'']
      | UNKNOWN \<Rightarrow> [])"

section \<open>Rendering a float\<close>






definition price_str :: "string \<Rightarrow> string option" where
  \<comment> \<open>\<open>price_match.group(1)\<close> for the match of the price pattern in a line, if any\<close>
  "price_str line = map_option (\<lambda>price_match. group price_match 1) (re_search price_pattern line)"

section \<open>Predicates for the proofs\<close>

definition all_items :: "('a \<Rightarrow> bool) \<Rightarrow> error + 'a list \<Rightarrow> bool" where
  \<comment> \<open>every element of a returned list has the property\<close>
  "all_items P r = (case r of Inl e \<Rightarrow> True | Inr xs \<Rightarrow> list_all P xs)"

section \<open>Auxiliary facts\<close>

subsection \<open>Prices and quantities of the items\<close>

lemma py_float_nonneg: "py_float s = Some v \<Longrightarrow> 0 \<le> v"
  by (auto simp: py_float_def Let_def split: list.splits if_splits)

lemma scale_small_nonneg: "0 \<le> v \<Longrightarrow> 0 \<le> scale_small v"
  by (simp add: scale_small_def)

lemma fix_price_format_nonneg: "0 \<le> fix_price_format s"
  by (auto simp: fix_price_format_def scale_small_nonneg py_float_nonneg split: option.splits)

lemma int_of_digits_nonneg: "int_of_digits g = Inr q \<Longrightarrow> 0 \<le> q"
  by (auto simp: int_of_digits_def split: if_splits)

lemma marker_quantity_nonneg: "marker_quantity line = Inr q \<Longrightarrow> 0 \<le> q"
  by (auto simp: marker_quantity_def dest: int_of_digits_nonneg split: option.splits)

lemma make_item_fields:
  "case make_item r n q p of
     Inl e \<Rightarrow> True
   | Inr it \<Rightarrow> price it = p \<and> (0 \<le> q \<longrightarrow> 0 \<le> quantity it)"
  by (simp add: make_item_def Let_def split: sum.split)

lemma make_item_Inr:
  "make_item r n q p = Inr it \<Longrightarrow> price it = p \<and> (0 \<le> q \<longrightarrow> 0 \<le> quantity it)"
  using make_item_fields [where r = r and n = n and q = q and p = p] by simp

lemma marker_or_leading_nonneg: "marker_or_leading line = Inr found \<Longrightarrow> 0 \<le> fst found"
  by (auto simp: marker_or_leading_def dest: int_of_digits_nonneg
        split: option.splits sum.splits if_splits)

lemma all_items_collect: "(\<And>x. all_items P (body x)) \<Longrightarrow> all_items P (collect body xs)"
proof (induction xs)
  case Nil
  show ?case by (simp add: all_items_def)
next
  case (Cons x xs)
  from Cons.prems have "all_items P (body x)" .
  moreover from Cons have "all_items P (collect body xs)" by simp
  ultimately show ?case
    by (simp add: all_items_def split: sum.splits)
qed

lemma all_items_weaken: "all_items P r \<Longrightarrow> (\<And>x. P x \<Longrightarrow> Q x) \<Longrightarrow> all_items Q r"
proof -
  have "list_all P xs \<Longrightarrow> (\<And>x. P x \<Longrightarrow> Q x) \<Longrightarrow> list_all Q xs" for xs
    by (induction xs) simp_all
  then show "all_items P r \<Longrightarrow> (\<And>x. P x \<Longrightarrow> Q x) \<Longrightarrow> all_items Q r"
    by (cases r) (simp_all add: all_items_def)
qed

lemma position_line_item:
  "all_items (\<lambda>it. 0 \<le> price it \<and> 0 \<le> quantity it) (position_line st i)"
  by (auto simp: all_items_def position_line_def Let_def fix_price_format_nonneg
        dest!: make_item_Inr marker_quantity_nonneg split: option.split sum.split)

lemma alternative_line_item:
  "all_items (\<lambda>it. 0 \<le> price it \<and> 0 \<le> quantity it) (alternative_line ls i)"
  by (auto simp: all_items_def alternative_line_def Let_def fix_price_format_nonneg
        dest!: make_item_Inr marker_quantity_nonneg split: option.split sum.split)

lemma sushigo_line_item:
  "all_items (\<lambda>it. 0 \<le> price it \<and> 0 \<le> quantity it) (sushigo_line l)"
  by (auto simp: all_items_def sushigo_line_def Let_def fix_price_format_nonneg
        dest!: marker_or_leading_nonneg split: option.split sum.split)

lemma gomachi_line_item:
  "all_items (\<lambda>it. 0 \<le> price it \<and> 0 \<le> quantity it) (gomachi_line ls i)"
  by (auto simp: all_items_def gomachi_line_def Let_def fix_price_format_nonneg
        dest!: marker_or_leading_nonneg split: option.split sum.split)

lemma chatime_pattern_line_item:
  "all_items (\<lambda>it. 0 \<le> price it \<and> 0 \<le> quantity it) (chatime_pattern_line ls i)"
  by (auto simp: all_items_def chatime_pattern_line_def Let_def fix_price_format_nonneg
        dest!: int_of_digits_nonneg split: option.split sum.split)

lemma list_all_concat_map: "(\<And>x. list_all P (f x)) \<Longrightarrow> list_all P (concat (map f xs))"
  by (induction xs) simp_all

lemma chatime_x_line_item:
  "list_all (\<lambda>it. 0 \<le> price it) (chatime_x_line ls i)"
  by (simp add: chatime_x_line_def Let_def fix_price_format_nonneg split: option.split)

lemma alternative_item:
  "all_items (\<lambda>it. 0 \<le> price it \<and> 0 \<le> quantity it) (extract_items_alternative ft rt)"
proof -
  let ?P = "\<lambda>it. 0 \<le> price it \<and> 0 \<le> quantity it"
  let ?ls = "split_char newline ft"
  have 1: "all_items ?P (collect (alternative_line ?ls) [0..<length ?ls])"
    by (rule all_items_collect) (rule alternative_line_item)
  have 2: "all_items ?P (collect sushigo_line ?ls)"
    by (rule all_items_collect) (rule sushigo_line_item)
  have 3: "all_items ?P (collect (gomachi_line ?ls) [0..<length ?ls])"
    by (rule all_items_collect) (rule gomachi_line_item)
  show ?thesis
    using 1 2 3
    by (auto simp: extract_items_alternative_def Let_def all_items_def split: sum.splits)
qed

lemma chatime_item:
  "all_items (\<lambda>it. 0 \<le> price it) (extract_items_from_chatime_receipt trs ft)"
proof -
  let ?ls = "split_char newline ft"
  have "all_items (\<lambda>it. 0 \<le> price it) (chatime_pattern_line ?ls i)" for i
    by (rule all_items_weaken [OF chatime_pattern_line_item]) simp
  then have "all_items (\<lambda>it. 0 \<le> price it) (collect (chatime_pattern_line ?ls) [0..<length ?ls])"
    by (rule all_items_collect)
  then show ?thesis
    by (auto simp: extract_items_from_chatime_receipt_def Let_def all_items_def
          list_all_concat_map chatime_x_line_item split: sum.splits)
qed

lemma extract_items_bounds:
  "all_items (\<lambda>it. 0 \<le> price it \<and> (rt \<noteq> CHATIME \<longrightarrow> 0 \<le> quantity it))
     (extract_items trs rt ft)"
proof (cases "rt = CHATIME")
  case True
  show ?thesis
    unfolding extract_items_def using True
    by (simp add: all_items_weaken [OF chatime_item])
next
  case False
  let ?P = "\<lambda>it. 0 \<le> price it \<and> 0 \<le> quantity it"
  let ?st = "sort_key top_y trs"
  have 1: "all_items ?P (collect (position_line ?st)
             (range_idx (header_end_idx ?st) (footer_start_idx ?st)))"
    by (rule all_items_collect) (rule position_line_item)
  show ?thesis
    unfolding extract_items_def Let_def using False 1 alternative_item [of ft rt]
    by (auto simp: all_items_def split: sum.splits)
qed

lemma extract_amount_nonneg: "extract_amount r ft = Some v \<Longrightarrow> 0 \<le> v"
  by (auto simp: extract_amount_def fix_price_format_nonneg split: option.splits)

lemma sum_prices_nonneg:
  "list_all (\<lambda>it. 0 \<le> price it) items \<Longrightarrow> 0 \<le> sum_list (map price items)"
  by (induction items) simp_all

lemma calculate_total_nonneg:
  assumes "list_all (\<lambda>it. 0 \<le> price it) items"
  shows "0 \<le> calculate_total items (extract_totals ft)"
proof -
  have s: "0 \<le> sum_list (map price items)" using assms by (rule sum_prices_nonneg)
  show ?thesis
    using s
    by (auto simp: calculate_total_def extract_totals_def Let_def dest!: extract_amount_nonneg
          split: option.splits)
qed

lemma extract_items_price: "all_items (\<lambda>it. 0 \<le> price it) (extract_items trs rt ft)"
  by (rule all_items_weaken [OF extract_items_bounds]) simp

subsection \<open>The stages on the Gomachi example\<close>

lemma gomachi_extract_text:
  "snd (extract_text gomachi_receipt) = gomachi_text"
  "fst (extract_text gomachi_receipt) \<noteq> []"
  by code_simp+

lemma gomachi_type: "identify_receipt_type gomachi_text = GOMACHI"
  by code_simp

lemma gomachi_items:
  "extract_items (fst (extract_text gomachi_receipt)) GOMACHI gomachi_text =
     Inr [\<lparr>name = ''GYOZA 25.000'', quantity = 2, price = 25000, category = FOOD\<rparr>]"
  by code_simp

lemma gomachi_totals:
  "extract_totals gomachi_text =
     \<lparr>subtotal = None, tax = None, service_charge = None, total = Some 25000\<rparr>"
  by code_simp

subsection \<open>The stages on the Gomachi example with a tax line\<close>

lemma gomachi_tax_extract_text:
  "snd (extract_text gomachi_tax_receipt) = gomachi_tax_text"
  "fst (extract_text gomachi_tax_receipt) \<noteq> []"
  "gomachi_tax_receipt \<noteq> []"
  by code_simp+

lemma gomachi_tax_type: "identify_receipt_type gomachi_tax_text = GOMACHI"
  by code_simp

lemma gomachi_tax_items:
  "extract_items (fst (extract_text gomachi_tax_receipt)) GOMACHI gomachi_tax_text =
     Inr [\<lparr>name = ''GYOZA 25.000'', quantity = 2, price = 25000, category = FOOD\<rparr>]"
  by code_simp

lemma gomachi_tax_searches:
  "re_search total_pattern gomachi_tax_text = None"
  "re_search subtotal_pattern gomachi_tax_text = None"
  "re_search service_pattern gomachi_tax_text = None"
  "extract_amount tax_pattern gomachi_tax_text = Some 2500"
  by code_simp+

lemma gomachi_nonempty: "gomachi_receipt \<noteq> []" by code_simp

lemma gomachi_no_tax: "re_search tax_pattern gomachi_text = None"
  by code_simp

subsection \<open>Quantities below one\<close>

text \<open>
  In the fallback of the Chatime strategy the quantity is \<open>int\<close> of the text before the
  first \<open>x\<close>, sign included.
\<close>

lemma chatime_negative_quantity:
  "identify_receipt_type chatime_minus_text = CHATIME \<and>
   extract_items trs CHATIME chatime_minus_text =
     Inr [\<lparr>name = ''TEA-1'', quantity = - 2, price = 5000, category = BEVERAGE\<rparr>]"
  by code_simp

subsection \<open>Amounts without a comma\<close>

lemma clean_price_id: "list_all (\<lambda>c. is_digit c \<or> c = CHR ''.'') s \<Longrightarrow> clean_price s = s"
  by (induction s) (auto simp: clean_price_def)

lemma no_comma: "list_all (\<lambda>c. is_digit c \<or> c = CHR ''.'') s \<Longrightarrow> CHR '','' \<notin> set s"
  by (induction s) (auto simp: is_digit_def)

subsection \<open>Evaluating the price normalizer\<close>

lemma is_digit_chars [simp]:
  "is_digit CHR ''0''" "is_digit CHR ''1''" "is_digit CHR ''2''" "is_digit CHR ''3''"
  "is_digit CHR ''4''" "is_digit CHR ''5''" "is_digit CHR ''6''" "is_digit CHR ''7''"
  "is_digit CHR ''8''" "is_digit CHR ''9''" "\<not> is_digit CHR ''.''" "\<not> is_digit CHR '',''"
  by (simp_all add: is_digit_def)

lemmas price_eval =
  fix_price_format_def fix_separators_def clean_price_def replace_char_def ends_with_def
  py_float_def digits_val_def digit_val_def scale_small_def

subsection \<open>Separators\<close>

lemma replace_char_map: "replace_char c [d] s = map (\<lambda>x. if x = c then d else x) s"
  by (induction s) (simp_all add: replace_char_def)

lemma replace_char_filter: "replace_char c [] s = filter (\<lambda>x. x \<noteq> c) s"
  by (induction s) (simp_all add: replace_char_def)

lemma starts_with_iff: "starts_with p s \<longleftrightarrow> (\<exists>q. s = p @ q)"
  by (induction p s rule: starts_with.induct) auto

lemma ends_with_iff: "ends_with p s \<longleftrightarrow> (\<exists>q. s = q @ p)"
proof
  assume "ends_with p s"
  then obtain q where "rev s = rev p @ q" by (auto simp: ends_with_def starts_with_iff)
  then have "s = rev q @ p" by (metis rev_append rev_rev_ident)
  then show "\<exists>q. s = q @ p" by blast
next
  assume "\<exists>q. s = q @ p"
  then show "ends_with p s" by (auto simp: ends_with_def starts_with_iff)
qed

subsection \<open>The merchant name\<close>

lemma merchant_hit_aliases:
  "merchant_hit rt t =
     (if any_in (merchant_aliases rt) t
      then Some (if rt = GOMACHI then ''Gomachi'' else if rt = CHATIME then ''Chatime'' else t)
      else None)"
  by (cases rt) (simp_all add: merchant_hit_def merchant_aliases_def any_in_def)

lemma merchant_scan_find:
  "merchant_scan rt xs =
     (case List.find (\<lambda>x. any_in (merchant_aliases rt) (text_of x)) xs of
        Some x \<Rightarrow> Some (if rt = GOMACHI then ''Gomachi'' else if rt = CHATIME then ''Chatime''
                         else text_of x)
      | None \<Rightarrow> None)"
  by (induction xs) (simp_all add: merchant_hit_aliases)

subsection \<open>Parsing a rendered float\<close>


















subsection \<open>Where the total pattern can match\<close>

text \<open>
  The total pattern matches only where \<open>total\<close>, in any case, stands at the start of
  the text or right after a blank character. A text in which every \<open>total\<close> follows
  a non-blank character, as in \<open>Subtotal\<close>, has no extracted total.
\<close>

lemma matches_str_ci:
  "matches (str_ci w) (j, r, caps) \<noteq> [] \<Longrightarrow> starts_with (lower w) (lower r)"
proof (induction w arbitrary: j r)
  case Nil
  show ?case by (simp add: lower_def)
next
  case (Cons c w)
  show ?case
  proof (cases r)
    case Nil
    with Cons.prems show ?thesis by (simp add: str_ci_def lit_ci_def)
  next
    case (Cons d r')
    with Cons.prems have "lower_char d = lower_char c"
      and "matches (str_ci w) (Suc j, r', caps) \<noteq> []"
      by (auto simp: str_ci_def lit_ci_def split: if_splits)
    then show ?thesis
      using Cons.IH [of "Suc j" r'] Cons by (simp add: lower_def)
  qed
qed

lemma matches_total_keyword:
  assumes "matches total_keyword (i, r, caps) \<noteq> []"
  shows "(i = 0 \<and> starts_with ''total'' (lower r)) \<or>
         (\<exists>c r'. r = c # r' \<and> is_space c \<and> starts_with ''total'' (lower r'))"
proof -
  have l: "lower ''total'' = ''total''" by (simp add: lower_def lower_char_def)
  from assms have
    "(i = 0 \<and> matches (str_ci ''total'') (i, r, caps) \<noteq> []) \<or>
     (\<exists>c r'. r = c # r' \<and> is_space c \<and> matches (str_ci ''total'') (Suc i, r', caps) \<noteq> [])"
    unfolding total_keyword_def space_def
    by (cases r) (auto split: if_splits)
  then show ?thesis
    using matches_str_ci [of "''total''"] l by metis
qed

lemma search_total_none:
  assumes "\<And>p c r. full_text = p @ c # r \<Longrightarrow> is_space c \<Longrightarrow> \<not> starts_with ''total'' (lower r)"
    and "full_text = p @ r" and "i = length p"
    and "i = 0 \<longrightarrow> \<not> starts_with ''total'' (lower r)"
  shows "search_from total_pattern i r = None"
  using assms(2-4)
proof (induction r arbitrary: p i)
  case Nil
  have "matches total_keyword (i, [], []) = []"
    using matches_total_keyword [of i "[]" "[]"] Nil by auto
  then show ?case
    by (simp add: match_at_def total_pattern_def keyword_amount_def)
next
  case (Cons c r)
  have "matches total_keyword (i, c # r, []) = []"
  proof (rule ccontr)
    assume "matches total_keyword (i, c # r, []) \<noteq> []"
    from matches_total_keyword [OF this] Cons.prems(3)
    have "is_space c \<and> starts_with ''total'' (lower r)" by auto
    with assms(1) [of p c r] Cons.prems(1) show False by simp
  qed
  then have m: "match_at total_pattern i (c # r) = None"
    by (simp add: match_at_def total_pattern_def keyword_amount_def)
  have "search_from total_pattern (Suc i) r = None"
    by (rule Cons.IH [of "p @ [c]"]) (simp_all add: Cons.prems)
  with m show ?case by simp
qed

lemma total_needs_start_or_blank:
  assumes "\<not> starts_with ''total'' (lower full_text)"
    and "\<And>p c r. full_text = p @ c # r \<Longrightarrow> is_space c \<Longrightarrow> \<not> starts_with ''total'' (lower r)"
  shows "total (extract_totals full_text) = None"
proof -
  have "search_from total_pattern 0 full_text = None"
    by (rule search_total_none [of full_text "[]"]) (simp_all add: assms)
  then show ?thesis
    by (simp add: extract_totals_def extract_amount_def re_search_def)
qed


subsection \<open>The Gomachi item line in the position-based strategy\<close>

text \<open>
  The loop body of the position-based strategy cuts the name before the price: on the
  line of the Gomachi example it gives the name \<open>GYOZA\<close>.
\<close>

lemma position_line_gyoza:
  "position_line [\<lparr>text_of = ''2 GYOZA 25.000'', position = box_at 20, confidence = 1\<rparr>] 0 =
     Inr [\<lparr>name = ''GYOZA'', quantity = 2, price = 25000, category = FOOD\<rparr>]"
  by code_simp

subsection \<open>List indices stay in range\<close>

text \<open>
  The main loop of \<open>extract_items\<close> reads \<open>sorted_text[i]\<close> and \<open>sorted_text[i-1]\<close>
  for \<open>i\<close> in \<open>range(header_end_idx, footer_start_idx)\<close>: both exist, so the loop raises
  no \<open>IndexError\<close>. The other loops read \<open>lines[i-1]\<close> only from \<open>i = 3\<close> on and
  \<open>lines[i+1]\<close> only after the test \<open>i + 1 < len(lines)\<close>; a string that contains
  \<open>x\<close> splits into two parts.
\<close>

lemma first_index_less: "first_index P xs = Some i \<Longrightarrow> i < length xs"
  by (induction xs arbitrary: i) (auto split: if_splits)

lemma footer_start_idx_le: "footer_start_idx st \<le> int (length st)"
proof (cases "first_index (\<lambda>x. any_in footer_keywords (lower (text_of x))) st")
  case None
  then show ?thesis by (simp add: footer_start_idx_def Let_def)
next
  case (Some i)
  then show ?thesis
    using first_index_less [OF Some] by (simp add: footer_start_idx_def Let_def)
qed

lemma position_index_in_range:
  "i \<in> set (range_idx (header_end_idx st) (footer_start_idx st)) \<Longrightarrow> 0 < i \<and> i < length st"
proof -
  assume a: "i \<in> set (range_idx (header_end_idx st) (footer_start_idx st))"
  have h: "0 < header_end_idx st"
    by (simp add: header_end_idx_def Let_def max_def split: option.split)
  from a have "header_end_idx st \<le> i" "int i < footer_start_idx st"
    by (auto simp: range_idx_def)
  with h footer_start_idx_le [of st] show ?thesis by linarith
qed

lemma split_once_two: "contains [c] s \<Longrightarrow> length (split_once c s) = 2"
proof -
  have "contains [c] s \<Longrightarrow> c \<in> set s"
    by (induction s) auto
  then show "contains [c] s \<Longrightarrow> length (split_once c s) = 2"
    by (simp add: split_once_def)
qed

subsection \<open>A quantity marker with more digits than \<open>int\<close> converts\<close>

text \<open>
  A run of digits in front of an \<open>x\<close> is found by the marker pattern whatever its
  length, and the conversion of a run longer than the limit raises. The run is kept
  symbolic: the facts below hold for every run of digits.
\<close>

lemma digit_run_replicate: "is_digit c \<Longrightarrow> list_all is_digit (replicate n c)"
  by (induction n) simp_all

lemma long_digits_facts:
  "list_all is_digit long_digits" "length long_digits = 4301" "long_digits \<noteq> []"
proof -
  have "is_digit CHR ''1''" by (simp add: is_digit_def)
  then show "list_all is_digit long_digits"
    unfolding long_digits_def by (rule digit_run_replicate)
  show l: "length long_digits = 4301"
    unfolding long_digits_def by (rule length_replicate)
  show "long_digits \<noteq> []" using l by auto
qed

lemma lower_char_digit: "is_digit c \<Longrightarrow> lower_char c = c"
proof -
  have "list_all (\<lambda>c. lower_char c = c) ''0123456789''" by code_simp
  then show "is_digit c \<Longrightarrow> lower_char c = c"
    unfolding is_digit_def list_all_iff by blast
qed

lemma lower_digits: "list_all is_digit ds \<Longrightarrow> lower ds = ds"
  by (induction ds) (simp_all add: lower_def lower_char_digit)

lemma lower_append: "lower (a @ b) = lower a @ lower b"
  by (simp add: lower_def)

lemma starts_with_digit_run:
  "list_all is_digit ds \<Longrightarrow> ds \<noteq> [] \<Longrightarrow> \<not> is_digit k \<Longrightarrow> starts_with (k # ks) (ds @ s) = False"
  by (cases ds) auto

lemma contains_digit_run:
  "list_all is_digit ds \<Longrightarrow> \<not> is_digit k \<Longrightarrow> contains (k # ks) (ds @ s) = contains (k # ks) s"
  by (induction ds) auto

lemma star_iter_stop: "f st = [] \<Longrightarrow> star_iter f k st = [st]"
  by (cases k) simp_all

lemma seq_head:
  "matches a st = s1 # rest \<Longrightarrow> matches b s1 = t1 # rest' \<Longrightarrow>
   \<exists>rest''. matches (Seq a b) st = t1 # rest''"
  by simp

lemma star_digit_run:
  "list_all is_digit ds \<Longrightarrow> s = [] \<or> \<not> is_digit (hd s) \<Longrightarrow> length ds \<le> k \<Longrightarrow>
   \<exists>rest. star_iter (matches digit) k (i, ds @ s, caps) = (i + length ds, s, caps) # rest"
proof (induction ds arbitrary: i k)
  case Nil
  then have "matches digit (i, s, caps) = []"
    by (cases s) (auto simp: digit_def)
  then show ?case by (simp add: star_iter_stop)
next
  case (Cons d ds)
  then obtain k' where k: "k = Suc k'" "length ds \<le> k'" by (cases k) auto
  from Cons.prems have d: "is_digit d" "list_all is_digit ds" by simp_all
  have f: "matches digit (i, (d # ds) @ s, caps) = [(Suc i, ds @ s, caps)]"
    using d(1) by (simp add: digit_def)
  from Cons.IH [OF d(2) Cons.prems(2) k(2), of "Suc i"]
  obtain rest where "star_iter (matches digit) k' (Suc i, ds @ s, caps) = (Suc i + length ds, s, caps) # rest"
    by blast
  then show ?case
    unfolding k star_iter.simps f by simp
qed

lemma group_digit_run:
  assumes "list_all is_digit ds" "ds \<noteq> []" "s = [] \<or> \<not> is_digit (hd s)"
  shows "\<exists>rest. matches (Group g (Plus digit)) (i, ds @ s, caps) =
           (i + length ds, s, (g, ds) # caps) # rest"
proof -
  from assms(2) obtain d ds' where ds: "ds = d # ds'" by (cases ds) auto
  with assms(1) have d: "is_digit d" "list_all is_digit ds'" by simp_all
  have f: "matches digit (i, (d # ds') @ s, caps) = [(Suc i, ds' @ s, caps)]"
    using d(1) by (simp add: digit_def)
  from star_digit_run [OF d(2) assms(3), of "length (ds' @ s)" "Suc i" caps]
  obtain rest where
    r: "star_iter (matches digit) (length (ds' @ s)) (Suc i, ds' @ s, caps) =
       (Suc i + length ds', s, caps) # rest"
    by auto
  have "matches (Plus digit) (i, ds @ s, caps) = (Suc i + length ds', s, caps) # rest"
    unfolding ds Plus_def matches.simps f using r by simp
  then show ?thesis
    by (simp add: ds)
qed

lemma qty_marker_digit_run:
  assumes "list_all is_digit ds" "ds \<noteq> []"
  shows "\<exists>m. re_search qty_marker (ds @ CHR ''x'' # t) = Some m \<and> group m 1 = ds"
proof -
  let ?s1 = "(length ds, CHR ''x'' # t, [(1::nat, ds)])"
  have x: "\<not> is_digit CHR ''x''" "\<not> is_space CHR ''x''"
    by (simp_all add: is_digit_def is_space_def)
  from group_digit_run [OF assms, of "CHR ''x'' # t" 1 0 "[]"] x(1)
  obtain rest where g: "matches (Group 1 (Plus digit)) (0, ds @ CHR ''x'' # t, []) = ?s1 # rest"
    by auto
  have "matches space ?s1 = []" using x(2) by (simp add: space_def)
  then have s: "matches (Star space) ?s1 = ?s1 # []"
    by (simp add: star_iter_stop)
  have o: "matches (one_of ''xX'') ?s1 = (Suc (length ds), t, [(1, ds)]) # []"
    by (simp add: one_of_def)
  from seq_head [OF s o] obtain r1 where
    "matches (Seq (Star space) (one_of ''xX'')) ?s1 = (Suc (length ds), t, [(1, ds)]) # r1"
    by blast
  from seq_head [OF g this] obtain r2 where
    m: "matches (Seq (Group 1 (Plus digit)) (Seq (Star space) (one_of ''xX'')))
          (0, ds @ CHR ''x'' # t, []) = (Suc (length ds), t, [(1, ds)]) # r2"
    by blast
  have q: "qty_marker = Seq (Group 1 (Plus digit)) (Seq (Star space) (one_of ''xX''))"
    by (simp add: qty_marker_def)
  have "match_at qty_marker 0 (ds @ CHR ''x'' # t) =
        Some \<lparr>m_start = 0, m_text = take (Suc (length ds)) (ds @ CHR ''x'' # t),
              m_groups = [(1, ds)]\<rparr>"
    unfolding q match_at_def m by simp
  moreover from assms(2) obtain d ds' where "ds = d # ds'" by (cases ds) auto
  ultimately have "re_search qty_marker (ds @ CHR ''x'' # t) =
        Some \<lparr>m_start = 0, m_text = take (Suc (length ds)) (ds @ CHR ''x'' # t),
              m_groups = [(1, ds)]\<rparr>"
    by (simp add: re_search_def)
  then show ?thesis by (simp add: group_def)
qed

lemma marker_quantity_long:
  assumes "list_all is_digit ds" "length ds > int_max_str_digits"
  shows "marker_quantity (ds @ CHR ''x'' # t) = Inl ValueError"
proof -
  from assms(2) have "ds \<noteq> []" by auto
  from qty_marker_digit_run [OF assms(1) this, of t]
  obtain m where "re_search qty_marker (ds @ CHR ''x'' # t) = Some m" "group m 1 = ds" by blast
  then show ?thesis
    using assms(2) by (simp add: marker_quantity_def int_of_digits_def)
qed

lemma search_later:
  "search_from r (i + length a) b \<noteq> None \<Longrightarrow> search_from r i (a @ b) \<noteq> None"
proof (induction a arbitrary: i)
  case Nil
  then show ?case by simp
next
  case (Cons c a)
  from Cons.prems have "search_from r (Suc i + length a) b \<noteq> None" by simp
  from Cons.IH [OF this] show ?case
    by (simp split: option.split)
qed

text \<open>
  The stages of the pipeline on the example with the long marker: no fragment has a
  keyword of a receipt type or of a header, the last fragment is the footer, so the item
  region is the sixth fragment alone; it has a price, and its marker does not convert.
\<close>

lemma long_line_price: "re_search price_pattern (long_digits @ ''x Bread 5.000'') \<noteq> None"
proof -
  have "search_from price_pattern 4301 ''x Bread 5.000'' \<noteq> None"
    by code_simp
  then have "search_from price_pattern (0 + length long_digits) ''x Bread 5.000'' \<noteq> None"
    by (simp add: long_digits_facts(2))
  from search_later [OF this] show ?thesis by (simp add: re_search_def)
qed

lemma long_line_marker: "marker_quantity (long_digits @ ''x Bread 5.000'') = Inl ValueError"
  using marker_quantity_long [OF long_digits_facts(1), of "'' Bread 5.000''"]
  by (simp add: long_digits_facts(2) int_max_str_digits_def)

lemma long_marker_extract_text:
  "fst (extract_text long_marker_receipt) =
     map (\<lambda>it. \<lparr>text_of = snd it, position = box_at (fst it), confidence = 1\<rparr>)
       [(0, ''TOKO ROTI''), (20, ''Bon 1''), (40, ''Bon 2''), (60, ''Bon 3''), (80, ''Bon 4''),
        (100, long_digits @ ''x Bread 5.000''), (120, ''TOTAL 5.000'')]"
  "snd (extract_text long_marker_receipt) =
     ''TOKO ROTI'' @ [newline] @ ''Bon 1'' @ [newline] @ ''Bon 2'' @ [newline] @ ''Bon 3'' @ [newline]
     @ ''Bon 4'' @ [newline] @ long_digits @ ''x Bread 5.000'' @ [newline] @ ''TOTAL 5.000''"
  by (simp_all add: extract_text_def long_marker_receipt_def ocr_rows_def join_def)

lemma any_in_digit_run:
  "list_all is_digit ds \<Longrightarrow> list_all (\<lambda>k. k \<noteq> [] \<and> \<not> is_digit (hd k)) kws \<Longrightarrow>
   any_in kws (ds @ s) = any_in kws s"
proof (induction kws)
  case Nil
  then show ?case by (simp add: any_in_def)
next
  case (Cons k kws)
  then obtain c cs where k: "k = c # cs" "\<not> is_digit c" by (cases k) auto
  from Cons have "any_in kws (ds @ s) = any_in kws s" by simp
  then show ?case
    using contains_digit_run [OF Cons.prems(1) k(2), of cs s]
    by (simp add: any_in_def k(1))
qed

lemma long_line_lower:
  "lower (long_digits @ ''x Bread 5.000'') = long_digits @ ''x bread 5.000''"
proof -
  have "lower ''x Bread 5.000'' = ''x bread 5.000''" by code_simp
  then show ?thesis
    by (simp only: lower_append lower_digits [OF long_digits_facts(1)])
qed

lemma long_line_keywords:
  "\<not> any_in [''item'', ''description'', ''qty'', ''price'', ''amount'', ''jumlah'']
       (lower (long_digits @ ''x Bread 5.000''))"
  "\<not> any_in footer_keywords (lower (long_digits @ ''x Bread 5.000''))"
proof -
  have a: "\<not> any_in [''item'', ''description'', ''qty'', ''price'', ''amount'', ''jumlah'']
              ''x bread 5.000''"
    by code_simp
  have b: "\<not> any_in footer_keywords ''x bread 5.000''" by code_simp
  show "\<not> any_in [''item'', ''description'', ''qty'', ''price'', ''amount'', ''jumlah'']
       (lower (long_digits @ ''x Bread 5.000''))"
    unfolding long_line_lower using a
    by (subst any_in_digit_run [OF long_digits_facts(1)]) (simp_all add: is_digit_def)
  show "\<not> any_in footer_keywords (lower (long_digits @ ''x Bread 5.000''))"
    unfolding long_line_lower using b
    by (subst any_in_digit_run [OF long_digits_facts(1)])
       (simp_all add: is_digit_def footer_keywords_def)
qed

lemma short_line_keywords:
  "\<not> any_in [''item'', ''description'', ''qty'', ''price'', ''amount'', ''jumlah'']
       (lower ''TOKO ROTI'')"
  "\<not> any_in [''item'', ''description'', ''qty'', ''price'', ''amount'', ''jumlah'']
       (lower ''Bon 1'')"
  "\<not> any_in [''item'', ''description'', ''qty'', ''price'', ''amount'', ''jumlah'']
       (lower ''Bon 2'')"
  "\<not> any_in [''item'', ''description'', ''qty'', ''price'', ''amount'', ''jumlah'']
       (lower ''Bon 3'')"
  "\<not> any_in [''item'', ''description'', ''qty'', ''price'', ''amount'', ''jumlah'']
       (lower ''Bon 4'')"
  "\<not> any_in [''item'', ''description'', ''qty'', ''price'', ''amount'', ''jumlah'']
       (lower ''TOTAL 5.000'')"
  "\<not> any_in footer_keywords (lower ''TOKO ROTI'')"
  "\<not> any_in footer_keywords (lower ''Bon 1'')"
  "\<not> any_in footer_keywords (lower ''Bon 2'')"
  "\<not> any_in footer_keywords (lower ''Bon 3'')"
  "\<not> any_in footer_keywords (lower ''Bon 4'')"
  "any_in footer_keywords (lower ''TOTAL 5.000'')"
  by code_simp+

lemma long_marker_header: "header_end_idx (fst (extract_text long_marker_receipt)) = 5"
  unfolding long_marker_extract_text header_end_idx_def
  by (simp add: short_line_keywords long_line_keywords)

lemma long_marker_footer: "footer_start_idx (fst (extract_text long_marker_receipt)) = 6"
  unfolding long_marker_extract_text footer_start_idx_def
  by (simp add: short_line_keywords long_line_keywords)

lemma long_marker_sorted:
  "sort_key top_y (fst (extract_text long_marker_receipt)) = fst (extract_text long_marker_receipt)"
  unfolding long_marker_extract_text
  by (rule sort_key_id_if_sorted) (simp add: top_y_def box_at_def)

lemma long_marker_line:
  "position_line (fst (extract_text long_marker_receipt)) 5 = Inl ValueError"
proof -
  have "text_of (fst (extract_text long_marker_receipt) ! 5) = long_digits @ ''x Bread 5.000''"
    unfolding long_marker_extract_text by simp
  moreover obtain m where "re_search price_pattern (long_digits @ ''x Bread 5.000'') = Some m"
    using long_line_price by blast
  ultimately show ?thesis
    unfolding position_line_def Let_def by (simp only: option.case long_line_marker sum.case)
qed

lemma long_marker_items:
  "extract_items (fst (extract_text long_marker_receipt)) UNKNOWN ft = Inl ValueError"
  unfolding extract_items_def Let_def long_marker_sorted long_marker_header long_marker_footer
  by (simp add: range_idx_def long_marker_line)

lemma long_marker_type: "identify_receipt_type (snd (extract_text long_marker_receipt)) = UNKNOWN"
proof -
  have l: "lower (snd (extract_text long_marker_receipt)) =
     ''toko roti'' @ [newline] @ ''bon 1'' @ [newline] @ ''bon 2'' @ [newline] @ ''bon 3'' @ [newline]
     @ ''bon 4'' @ [newline] @ long_digits @ ''x bread 5.000'' @ [newline] @ ''total 5.000''"
  proof -
    have "lower ''TOKO ROTI'' = ''toko roti''" "lower ''Bon 1'' = ''bon 1''"
      "lower ''Bon 2'' = ''bon 2''" "lower ''Bon 3'' = ''bon 3''" "lower ''Bon 4'' = ''bon 4''"
      "lower (''x Bread 5.000'' @ [newline] @ ''TOTAL 5.000'') = ''x bread 5.000'' @ [newline] @ ''total 5.000''"
      "lower [newline] = [newline]"
      by code_simp+
    then show ?thesis
      unfolding long_marker_extract_text
      by (simp only: lower_append lower_digits [OF long_digits_facts(1)])
  qed
  have d: "\<And>k ks s. \<not> is_digit k \<Longrightarrow> contains (k # ks) (long_digits @ s) = contains (k # ks) s"
    by (rule contains_digit_run [OF long_digits_facts(1)])
  have c: "\<not> contains ''gomachi'' (lower (snd (extract_text long_marker_receipt)))"
    "\<not> contains ''japanese ramen'' (lower (snd (extract_text long_marker_receipt)))"
    "\<not> contains ''gemachi'' (lower (snd (extract_text long_marker_receipt)))"
    "\<not> contains ''chatime'' (lower (snd (extract_text long_marker_receipt)))"
    "\<not> contains ''milk tea'' (lower (snd (extract_text long_marker_receipt)))"
    "\<not> contains ''chatine'' (lower (snd (extract_text long_marker_receipt)))"
    "\<not> contains ''sushigo'' (lower (snd (extract_text long_marker_receipt)))"
    "\<not> contains ''one price sushi'' (lower (snd (extract_text long_marker_receipt)))"
    "\<not> contains ''hokben'' (lower (snd (extract_text long_marker_receipt)))"
    "\<not> contains ''hoka ichiman'' (lower (snd (extract_text long_marker_receipt)))"
    "\<not> contains ''indomaret'' (lower (snd (extract_text long_marker_receipt)))"
    "\<not> contains ''indomarco'' (lower (snd (extract_text long_marker_receipt)))"
    "\<not> contains ''warung ce'' (lower (snd (extract_text long_marker_receipt)))"
    "\<not> contains ''goldfinch'' (lower (snd (extract_text long_marker_receipt)))"
    unfolding l by (simp_all add: newline_def d is_digit_def)
  show ?thesis
    unfolding identify_receipt_type_def Let_def by (simp only: c if_False simp_thms)
qed

subsection \<open>The result when the pipeline returns\<close>

text \<open>
  When the pipeline returns a dictionary for a non-empty OCR result, \<open>success\<close> is
  true and the total is at least 0.
\<close>

lemma process_receipt_returns:
  assumes "ocr \<noteq> []" "process_receipt lib ocr = Inr res"
  shows "map_of res ''success'' = Some (PBool True) \<and>
         (\<exists>t. map_of res ''total'' = Some (PFloat t) \<and> 0 \<le> t)"
proof -
  let ?trs = "fst (extract_text ocr)"
  let ?ft = "snd (extract_text ocr)"
  from assms(1) have ne: "?trs \<noteq> []" by (simp add: extract_text_def)
  from assms(2) ne obtain items where
    i: "extract_items ?trs (identify_receipt_type ?ft) ?ft = Inr items"
    by (cases "extract_items ?trs (identify_receipt_type ?ft) ?ft")
       (simp_all add: process_receipt_def Let_def)
  from extract_items_price [of ?trs "identify_receipt_type ?ft" ?ft] i
  have "list_all (\<lambda>it. 0 \<le> price it) items" by (simp add: all_items_def)
  then have "0 \<le> calculate_total items (extract_totals ?ft)"
    by (rule calculate_total_nonneg)
  with assms(2) ne i show ?thesis
    by (auto simp: process_receipt_def Let_def)
qed

section \<open>Properties of the pipeline\<close>

text \<open>
  C1. When the OCR engine returns no text, the pipeline returns the dictionary with the
  two entries \<open>success = False\<close> and \<open>error = 'No text detected in the image'\<close>:
  no later stage runs and no other field is set.
\<close>

theorem process_receipt_empty:
  "process_receipt lib [] =
     Inr [(''success'', PBool False), (''error'', PStr ''No text detected in the image'')]"
  by (simp add: process_receipt_def extract_text_def)

text \<open>
  C2. Not every non-empty token stream gets a result with \<open>success = True\<close> and a total
  of at least 0: the pipeline can end in an exception instead. In the item loops the
  number in front of an \<open>x\<close> is converted by \<open>int\<close> outside any \<open>try\<close>, and \<open>int\<close>
  raises \<open>ValueError\<close> for more than 4300 digits. On the seven fragments
  \<open>TOKO ROTI\<close>, \<open>Bon 1\<close>, \<open>Bon 2\<close>, \<open>Bon 3\<close>, \<open>Bon 4\<close>, 4301 times the digit 1
  followed by \<open>x Bread 5.000\<close>, and \<open>TOTAL 5.000\<close>, the sixth fragment is in the item
  region and has a price, its marker is converted, and \<open>process_receipt\<close> raises
  \<open>ValueError\<close>: no dictionary is returned, whatever the date parser does. The
  fallback of the Chatime strategy catches the same exception around its \<open>int\<close>, and the
  price normalizer catches it around \<open>float\<close>.
\<close>

theorem process_receipt_raises:
  "long_marker_receipt \<noteq> [] \<and>
   process_receipt lib long_marker_receipt = Inl ValueError \<and>
   result_field ''success'' (process_receipt lib long_marker_receipt) = None"
proof -
  have ne: "fst (extract_text long_marker_receipt) \<noteq> []"
    unfolding long_marker_extract_text by simp
  then have "long_marker_receipt \<noteq> []"
    by (auto simp: extract_text_def)
  moreover have "process_receipt lib long_marker_receipt = Inl ValueError"
    using ne unfolding process_receipt_def Let_def long_marker_type
    by (simp only: if_False long_marker_items sum.case)
  ultimately show ?thesis
    by (simp add: result_field_def)
qed

text \<open>
  C3. On the three fragments \<open>GOMACHI RESTO\<close>, \<open>2 GYOZA 25.000\<close>, \<open>TOTAL 25.000\<close>, from
  top to bottom, the pipeline finds the receipt type GOMACHI, the total 25000 and one
  line item with quantity 2, price 25000 and category FOOD. The name of that item is
  the rest of the line, \<open>GYOZA 25.000\<close>, not \<open>GYOZA\<close>: the hardcoded scan for this
  receipt type stores \<open>line.strip()\<close> and does not cut the price off the name, as the
  other strategies do.
\<close>

theorem gomachi_scenario:
  "result_field ''receipt_type'' (process_receipt lib gomachi_receipt) = Some (PType GOMACHI) \<and>
   result_field ''items'' (process_receipt lib gomachi_receipt) =
     Some (PItems [\<lparr>name = ''GYOZA 25.000'', quantity = 2, price = 25000, category = FOOD\<rparr>]) \<and>
   result_field ''total'' (process_receipt lib gomachi_receipt) = Some (PFloat 25000)"
  by (simp add: result_field_def process_receipt_def Let_def gomachi_extract_text gomachi_type
        gomachi_items gomachi_totals calculate_total_def)

text \<open>
  C6. When the text has no total line that the total pattern finds, the result's total is
  the sum of the prices of the extracted items, plus the tax when one was extracted, plus
  the service charge when one was extracted. Subtotal, tax and service charge are
  \<open>None\<close>, not zero, when their patterns find nothing. Items priced 10000 and 25000
  with tax 2000 and service charge 1500 give the computed total 38500. The items are
  those that the item extraction returns.
\<close>

theorem total_computed_when_absent:
  assumes "ocr \<noteq> []"
    and "extract_items (fst (extract_text ocr))
           (identify_receipt_type (snd (extract_text ocr))) (snd (extract_text ocr)) = Inr items"
  shows
    "(re_search total_pattern (snd (extract_text ocr)) = None \<longrightarrow>
        result_field ''total'' (process_receipt lib ocr) =
          Some (PFloat
            (sum_list (map price items)
             + (case tax (extract_totals (snd (extract_text ocr))) of Some t \<Rightarrow> t | None \<Rightarrow> 0)
             + (case service_charge (extract_totals (snd (extract_text ocr))) of
                  Some c \<Rightarrow> c | None \<Rightarrow> 0)))) \<and>
     (re_search subtotal_pattern (snd (extract_text ocr)) = None \<longrightarrow>
        result_field ''subtotal'' (process_receipt lib ocr) = Some PNone) \<and>
     (re_search tax_pattern (snd (extract_text ocr)) = None \<longrightarrow>
        result_field ''tax'' (process_receipt lib ocr) = Some PNone) \<and>
     (re_search service_pattern (snd (extract_text ocr)) = None \<longrightarrow>
        result_field ''service_charge'' (process_receipt lib ocr) = Some PNone) \<and>
     calculate_total
       [\<lparr>name = n1, quantity = q1, price = 10000, category = c1\<rparr>,
        \<lparr>name = n2, quantity = q2, price = 25000, category = c2\<rparr>]
       \<lparr>subtotal = st, tax = Some 2000, service_charge = Some 1500, total = None\<rparr> = 38500"
proof -
  from assms(1) have "fst (extract_text ocr) \<noteq> []" by (simp add: extract_text_def)
  then show ?thesis
    using assms(2)
    by (simp add: result_field_def process_receipt_def Let_def calculate_total_def
          extract_totals_def extract_amount_def opt_float_def split: option.split)
qed

theorem total_computed_when_absent_witness:
  "gomachi_tax_receipt \<noteq> [] \<and>
   extract_items (fst (extract_text gomachi_tax_receipt))
     (identify_receipt_type (snd (extract_text gomachi_tax_receipt)))
     (snd (extract_text gomachi_tax_receipt)) =
     Inr [\<lparr>name = ''GYOZA 25.000'', quantity = 2, price = 25000, category = FOOD\<rparr>] \<and>
   re_search total_pattern gomachi_tax_text = None \<and>
   result_field ''total'' (process_receipt rejecting_lib gomachi_tax_receipt) =
     Some (PFloat 27500) \<and>
   re_search subtotal_pattern gomachi_tax_text = None \<and>
   result_field ''subtotal'' (process_receipt rejecting_lib gomachi_tax_receipt) = Some PNone \<and>
   re_search service_pattern gomachi_tax_text = None \<and>
   result_field ''service_charge'' (process_receipt rejecting_lib gomachi_tax_receipt) =
     Some PNone \<and>
   gomachi_receipt \<noteq> [] \<and>
   extract_items (fst (extract_text gomachi_receipt))
     (identify_receipt_type (snd (extract_text gomachi_receipt)))
     (snd (extract_text gomachi_receipt)) =
     Inr [\<lparr>name = ''GYOZA 25.000'', quantity = 2, price = 25000, category = FOOD\<rparr>] \<and>
   re_search tax_pattern gomachi_text = None \<and>
   result_field ''tax'' (process_receipt rejecting_lib gomachi_receipt) = Some PNone"
proof -
  have a: "extract_amount service_pattern gomachi_tax_text = None"
    by (simp add: extract_amount_def gomachi_tax_searches)
  have i1: "extract_items (fst (extract_text gomachi_tax_receipt))
     (identify_receipt_type (snd (extract_text gomachi_tax_receipt)))
     (snd (extract_text gomachi_tax_receipt)) =
     Inr [\<lparr>name = ''GYOZA 25.000'', quantity = 2, price = 25000, category = FOOD\<rparr>]"
    by (simp add: gomachi_tax_extract_text gomachi_tax_type gomachi_tax_items)
  have i2: "extract_items (fst (extract_text gomachi_receipt))
     (identify_receipt_type (snd (extract_text gomachi_receipt)))
     (snd (extract_text gomachi_receipt)) =
     Inr [\<lparr>name = ''GYOZA 25.000'', quantity = 2, price = 25000, category = FOOD\<rparr>]"
    by (simp add: gomachi_extract_text gomachi_type gomachi_items)
  show ?thesis
    using total_computed_when_absent [OF gomachi_tax_extract_text(3) i1, of rejecting_lib]
          total_computed_when_absent [OF gomachi_nonempty i2, of rejecting_lib]
    by (simp add: gomachi_tax_extract_text gomachi_tax_type gomachi_tax_items
          gomachi_tax_searches gomachi_extract_text gomachi_type gomachi_items gomachi_no_tax
          gomachi_nonempty extract_totals_def a)
qed




text \<open>
  C9. The total pattern asks for \<open>total\<close> at the start of the text or after a blank
  character. That keeps \<open>Subtotal 50.000\<close> from being read as the total, but the
  keyword \<open>Sub Total\<close>, which the subtotal pattern accepts, has a blank before
  \<open>Total\<close>: on the text \<open>Sub Total 50.000\<close> the total is extracted from the
  subtotal line.
\<close>

theorem sub_total_read_as_total:
  "extract_totals ''Sub Total 50.000'' =
     \<lparr>subtotal = Some 50000, tax = None, service_charge = None, total = Some 50000\<rparr> \<and>
   extract_totals ''Subtotal 50.000'' =
     \<lparr>subtotal = Some 50000, tax = None, service_charge = None, total = None\<rparr>"
  by code_simp

text \<open>
  C10. An amount of digits and dots with no comma gets no separator handling and goes to
  the float parser as it is. \<open>25.000\<close> parses as 25 and the correction for values
  below 1000 makes it 25000; \<open>1.000.000\<close> does not parse and the result is 0, not
  1000000.
\<close>

theorem dot_only_amount:
  "(CHR ''.'' \<in> set s \<and> list_all (\<lambda>c. is_digit c \<or> c = CHR ''.'') s \<longrightarrow>
      fix_separators (clean_price s) = s \<and>
      fix_price_format s = (case py_float s of None \<Rightarrow> 0 | Some p \<Rightarrow> scale_small p)) \<and>
   py_float ''25.000'' = Some 25 \<and> scale_small 25 = 25000 \<and>
   fix_price_format ''25.000'' = 25000 \<and>
   py_float ''1.000.000'' = None \<and> fix_price_format ''1.000.000'' = 0"
proof -
  have "fix_separators (clean_price s) = s \<and>
      fix_price_format s = (case py_float s of None \<Rightarrow> 0 | Some p \<Rightarrow> scale_small p)"
    if "list_all (\<lambda>c. is_digit c \<or> c = CHR ''.'') s"
    using that no_comma [OF that]
    by (simp add: fix_price_format_def fix_separators_def clean_price_id)
  moreover have "py_float ''25.000'' = Some 25" "scale_small 25 = 25000"
    "fix_price_format ''25.000'' = 25000"
    "py_float ''1.000.000'' = None" "fix_price_format ''1.000.000'' = 0"
    by (simp_all add: price_eval)
  ultimately show ?thesis by blast
qed

theorem dot_only_amount_witness:
  "CHR ''.'' \<in> set ''25.000'' \<and> list_all (\<lambda>c. is_digit c \<or> c = CHR ''.'') ''25.000'' \<and>
   fix_separators (clean_price ''25.000'') = ''25.000'' \<and>
   fix_price_format ''25.000'' = scale_small 25"
proof -
  have h: "CHR ''.'' \<in> set ''25.000'' \<and> list_all (\<lambda>c. is_digit c \<or> c = CHR ''.'') ''25.000''"
    by simp
  have p: "py_float ''25.000'' = Some 25" by (simp add: price_eval)
  from dot_only_amount [of "''25.000''"] h p show ?thesis by simp
qed

text \<open>
  C4. On the cleaned string the price normalizer treats the dot as thousands separator
  (removed) and the comma as decimal separator (turned into a dot) when both occur; a
  comma alone is the decimal separator exactly when the string ends in \<open>,00\<close> or
  \<open>,0\<close>, and a thousands separator (removed) otherwise. A parsed value above 0 and
  strictly below 1000 is multiplied by 1000. It maps \<open>1.000,50\<close> to 1000.50,
  \<open>1,000\<close> to 1000 and \<open>500\<close> to 500000.
\<close>

theorem price_normalizer_rules:
  "(CHR ''.'' \<in> set c \<and> CHR '','' \<in> set c \<longrightarrow>
      fix_separators c =
        map (\<lambda>d. if d = CHR '','' then CHR ''.'' else d) (filter (\<lambda>d. d \<noteq> CHR ''.'') c)) \<and>
   (CHR ''.'' \<notin> set c \<and> CHR '','' \<in> set c \<longrightarrow>
      fix_separators c =
        (if (\<exists>p. c = p @ '',00'') \<or> (\<exists>p. c = p @ '',0'')
         then map (\<lambda>d. if d = CHR '','' then CHR ''.'' else d) c
         else filter (\<lambda>d. d \<noteq> CHR '','') c)) \<and>
   fix_price_format s =
     (case py_float (fix_separators (clean_price s)) of
        None \<Rightarrow> 0
      | Some p \<Rightarrow> if 0 < p \<and> p < 1000 then p * 1000 else p) \<and>
   fix_price_format ''1.000,50'' = 2001 / 2 \<and>
   fix_price_format ''1,000'' = 1000 \<and>
   fix_price_format ''500'' = 500000"
proof -
  have a: "CHR ''.'' \<in> set c \<and> CHR '','' \<in> set c \<longrightarrow>
      fix_separators c =
        map (\<lambda>d. if d = CHR '','' then CHR ''.'' else d) (filter (\<lambda>d. d \<noteq> CHR ''.'') c)"
    by (simp add: fix_separators_def replace_char_map replace_char_filter)
  have b: "CHR ''.'' \<notin> set c \<and> CHR '','' \<in> set c \<longrightarrow>
      fix_separators c =
        (if (\<exists>p. c = p @ '',00'') \<or> (\<exists>p. c = p @ '',0'')
         then map (\<lambda>d. if d = CHR '','' then CHR ''.'' else d) c
         else filter (\<lambda>d. d \<noteq> CHR '','') c)"
    by (simp add: fix_separators_def replace_char_map replace_char_filter ends_with_iff)
  have c: "fix_price_format s =
     (case py_float (fix_separators (clean_price s)) of
        None \<Rightarrow> 0
      | Some p \<Rightarrow> if 0 < p \<and> p < 1000 then p * 1000 else p)"
    by (simp add: fix_price_format_def scale_small_def split: option.split)
  have d1: "fix_price_format ''1.000,50'' = 2001 / 2" by (simp add: price_eval)
  have d2: "fix_price_format ''1,000'' = 1000" by (simp add: price_eval)
  have d3: "fix_price_format ''500'' = 500000" by (simp add: price_eval)
  show ?thesis
    by (intro conjI) (rule a b c d1 d2 d3)+
qed

theorem price_normalizer_rules_witness:
  "CHR ''.'' \<in> set ''1.000,50'' \<and> CHR '','' \<in> set ''1.000,50'' \<and>
   fix_separators ''1.000,50'' = ''1000.50'' \<and>
   CHR ''.'' \<notin> set ''5,00'' \<and> CHR '','' \<in> set ''5,00'' \<and>
   fix_separators ''5,00'' = ''5.00'' \<and>
   CHR ''.'' \<notin> set ''1,000'' \<and> CHR '','' \<in> set ''1,000'' \<and>
   fix_separators ''1,000'' = ''1000''"
proof -
  have 1: "fix_separators ''1.000,50'' = ''1000.50''"
    using price_normalizer_rules [of "''1.000,50''"] by simp
  have 2: "fix_separators ''5,00'' = ''5.00''"
    using price_normalizer_rules [of "''5,00''"] by simp
  have 3: "fix_separators ''1,000'' = ''1000''"
    using price_normalizer_rules [of "''1,000''"] by simp
  show ?thesis using 1 2 3 by simp
qed

text \<open>
  C8. The merchant-name extractor looks at the first five fragments in top-to-bottom
  order for one whose text contains a literal of the receipt type. When it finds one it
  returns the fixed name \<open>Gomachi\<close> for GOMACHI and \<open>Chatime\<close> for CHATIME, and the
  text of the first such fragment for SUSHIGO, HOKBEN, INDOMARET and WARUNG_CE. When
  the type is UNKNOWN or no such fragment is among the first five, it returns the text
  of the first fragment, and \<open>Unknown Merchant\<close> when there is no fragment. So for
  GOMACHI the fragment \<open>GOMACHI RESTO\<close> gives \<open>Gomachi\<close>, not the fragment's text.
\<close>

theorem merchant_name_not_token_text:
  "contains ''GOMACHI'' ''GOMACHI RESTO'' \<and>
   extract_merchant_name
     [\<lparr>text_of = ''GOMACHI RESTO'', position = box_at 0, confidence = 1\<rparr>] GOMACHI = ''Gomachi'' \<and>
   ''Gomachi'' \<noteq> ''GOMACHI RESTO''"
  by code_simp

theorem merchant_name_cases:
  "extract_merchant_name text_results receipt_type =
     (case List.find (\<lambda>x. any_in (merchant_aliases receipt_type) (text_of x))
             (take 5 (sort_key top_y text_results)) of
        Some x \<Rightarrow>
          if receipt_type = GOMACHI then ''Gomachi''
          else if receipt_type = CHATIME then ''Chatime''
          else text_of x
      | None \<Rightarrow>
          (case sort_key top_y text_results of
             [] \<Rightarrow> ''Unknown Merchant''
           | x # _ \<Rightarrow> text_of x))"
proof -
  have "take (min 5 (length xs)) xs = take 5 xs" for xs :: "text_result list"
    by (simp add: min_def)
  then show ?thesis
    by (simp add: extract_merchant_name_def Let_def merchant_scan_find split: option.split)
qed




end
